theory Spec2Isabelle
  imports Main
begin

section \<open>The search editor input and its registry\<close>

text \<open>
  A shallow embedding of \<^verbatim>\<open>searchEditorInput.ts\<close>: the class
  \<^verbatim>\<open>SearchEditorInput\<close> and the module-level registry behind
  \<^verbatim>\<open>getOrMakeSearchEditorInput\<close>.

  Objects are references (natural numbers) into a store, so that "the identical
  object" is equality of references. Every method takes the state of the world and the
  reference of \<^verbatim>\<open>this\<close> and returns the new state. A promise is modelled
  by the value it settles to (\<open>Inl\<close> a rejection, \<open>Inr\<close> a result): an async
  function runs to completion where it is called, and the interleaving of its awaits
  with other calls is outside the model. A JavaScript string is a list of characters,
  one per code unit.
\<close>

subsection \<open>Data\<close>

text \<open>The five components of a \<^verbatim>\<open>URI\<close>; the file reads scheme, path and fragment.\<close>

record URI =
  scheme :: string
  authority :: string
  path :: string
  uri_query :: string
  fragment :: string

text \<open>
  \<^verbatim>\<open>URI.from({ scheme, path, fragment })\<close>, declared in \<^verbatim>\<open>uri.ts\<close>: the
  components that are not given are empty, an empty scheme reads as the file scheme, and
  a path of the file, http and https schemes starts with a slash. The validation of the
  components, which can throw, is left out: the schemes and paths this file passes are
  valid.
\<close>

definition schemeFix :: "string \<Rightarrow> string" where
  "schemeFix s = (if s = [] then ''file'' else s)"

definition referenceResolution :: "string \<Rightarrow> string \<Rightarrow> string" where
  "referenceResolution s p =
     (if s = ''https'' \<or> s = ''http'' \<or> s = ''file'' then
        (case p of
           [] \<Rightarrow> ''/''
         | c # cs \<Rightarrow> if c \<noteq> CHR ''/'' then CHR ''/'' # p else p)
      else p)"

definition URI_from :: "string \<Rightarrow> string \<Rightarrow> string \<Rightarrow> URI" where
  "URI_from s p f =
     \<lparr>scheme = schemeFix s, authority = [], path = referenceResolution (schemeFix s) p,
      uri_query = [], fragment = f\<rparr>"

text \<open>
  The scheme of untitled search editors and the two schemes of
  \<^verbatim>\<open>network.Schemas\<close> the file names; they are declared in
  \<^verbatim>\<open>constants.ts\<close> and \<^verbatim>\<open>network.ts\<close>.
\<close>

definition SearchEditorScheme :: string where
  "SearchEditorScheme = ''search-editor''"

definition Schemas_file :: string where
  "Schemas_file = ''file''"

definition Schemas_vscodeRemote :: string where
  "Schemas_vscodeRemote = ''vscode-remote''"

text \<open>
  \<^verbatim>\<open>Partial<SearchConfiguration>\<close>: every field may be absent. This file reads
  the field \<^verbatim>\<open>query\<close> only; the other fields are kept as a list of field
  name and printed value. The object \<^verbatim>\<open>{}\<close> is \<open>emptyConfig\<close>.
\<close>

record SearchConfiguration =
  query :: "string option"
  otherFields :: "(string \<times> string) list"

definition emptyConfig :: SearchConfiguration where
  "emptyConfig = \<lparr>query = None, otherFields = []\<rparr>"

text \<open>
  A decoration of a text model. \<^verbatim>\<open>getAllDecorations\<close> returns decorations
  with their identifier, a delta decoration has range and options only. A range is kept
  as its text, so the list of a text model is in the order the decorations were added,
  not, as in the editor, in the order of their positions.
\<close>

record IModelDecoration =
  dec_id :: "string option"
  dec_range :: string
  dec_options :: string

record TextModel =
  tm_value :: string
  tm_decorations :: "IModelDecoration list"

text \<open>
  Modelled from the spec: \<^verbatim>\<open>SearchEditorModel\<close> is declared in
  \<^verbatim>\<open>searchEditorModel.ts\<close>, which is not part of this file. It holds the text
  model of the results, the configuration, and whether it has been disposed.
\<close>

record SearchEditorModel =
  resultsTextModel :: TextModel
  searchConfig :: SearchConfiguration
  model_disposed :: bool

datatype error =
  NoInitialContents
  | FileReadError URI
  | FileWriteError URI
  | TypeError

record ITextFileSaveOptions =
  availableFileSystems :: "string list option"

text \<open>
  A \<^verbatim>\<open>SearchEditorInput\<close>. \<open>this_query\<close> is the private field
  \<^verbatim>\<open>query\<close>, \<open>highlights_field\<close> is \<^verbatim>\<open>_highlights\<close>,
  \<open>model\<close> is the settled promise. \<open>disposed\<close> and \<open>onDisposeKeys\<close>
  belong to the base class \<^verbatim>\<open>EditorInput\<close>: the flag its
  \<^verbatim>\<open>dispose\<close> sets and the listeners of its \<^verbatim>\<open>onDispose\<close>
  event. The only listener this file attaches is
  \<^verbatim>\<open>() => inputs.delete(uri.toString())\<close>, kept as the key it deletes.
\<close>

record SearchEditorInput =
  resource :: URI
  dirty :: bool
  model :: "error + SearchEditorModel"
  this_query :: "SearchConfiguration option"
  highlights_field :: "IModelDecoration list option"
  disposed :: bool
  onDisposeKeys :: "string list"

datatype WorkingCopyCapabilities = Untitled

text \<open>
  The anonymous \<^verbatim>\<open>IWorkingCopy\<close> of the constructor. It closes over
  \<^verbatim>\<open>input\<close> (\<open>wc_input\<close>); resource and capabilities are evaluated when
  it is created, everything else is a method that calls the input. The bit mask
  \<^verbatim>\<open>capabilities\<close> is the set of its flags, \<^verbatim>\<open>0\<close> the empty set.
\<close>

record WorkingCopy =
  wc_input :: nat
  wc_resource :: URI
  wc_capabilities :: "WorkingCopyCapabilities set"

datatype AutoSaveMode =
  OFF | AFTER_SHORT_DELAY | AFTER_LONG_DELAY | ON_FOCUS_CHANGE | ON_WINDOW_CHANGE

datatype TextFileCall =
  ReadCall URI
  | WriteCall URI string "ITextFileSaveOptions option"
  | SaveAsCall URI URI "ITextFileSaveOptions option"

text \<open>
  Modelled from the spec: the injected host services ("file dialogs, text file I/O, backup
  storage, model service, telemetry") are not part of this file; each is the state it
  holds and the calls it received.

  The world: the store of inputs (\<open>heap\<close>, the references below \<open>allocated\<close>
  are in use), the module-level map \<^verbatim>\<open>inputs\<close>, and the state of the injected
  services: the text models of the model service, the backups of the backup service,
  the files the text file service reads and the calls it received, the working copies
  registered, the telemetry events logged, the files the dialog was asked to suggest,
  and the auto save mode of the files configuration service.
\<close>

record world =
  heap :: "nat \<Rightarrow> SearchEditorInput"
  allocated :: nat
  inputs :: "string \<rightharpoonup> nat"
  textModels :: "URI \<rightharpoonup> TextModel"
  backups :: "URI \<rightharpoonup> string"
  files :: "URI \<rightharpoonup> string"
  textFileCalls :: "TextFileCall list"
  workingCopies :: "WorkingCopy list"
  telemetry :: "string list"
  dialogRequests :: "(URI \<times> string list option) list"
  autoSaveMode :: AutoSaveMode

text \<open>
  The pure functions this file imports from modules that are not part of it, and two
  values of the environment: taken as parameters, nothing is assumed about them.
\<close>

record host =
  uriToString :: "URI \<Rightarrow> string"
  extractSearchQuery :: "string \<Rightarrow> SearchConfiguration"
  serializeSearchConfiguration :: "SearchConfiguration \<Rightarrow> string"
  basename :: "string \<Rightarrow> string \<Rightarrow> string"
  localize :: "string \<Rightarrow> string \<Rightarrow> string list \<Rightarrow> string"
  isEqual :: "URI \<Rightarrow> URI \<Rightarrow> bool"
  joinPath :: "URI \<Rightarrow> string \<Rightarrow> URI"
  toLocalResource :: "URI \<Rightarrow> string option \<Rightarrow> URI"
  remoteAuthority :: "string option"
  defaultFilePath :: "string \<Rightarrow> URI option"

subsection \<open>Strings as JavaScript has them\<close>

text \<open>
  \<^verbatim>\<open>String.prototype.trim\<close> removes white space at both ends: of the code units
  a character can hold these are tab, line feed, vertical tab, form feed, carriage
  return, space and the no-break space.
\<close>

definition isWhiteSpace :: "char \<Rightarrow> bool" where
  "isWhiteSpace c = ((of_char c :: nat) \<in> {9, 10, 11, 12, 13, 32, 160})"

definition trim :: "string \<Rightarrow> string" where
  "trim s = rev (dropWhile isWhiteSpace (rev (dropWhile isWhiteSpace s)))"

text \<open>
  \<^verbatim>\<open>label.slice(0, end)\<close>: a negative end counts from the end of the string,
  and the result is empty when the end is not after the start.
\<close>

definition slice0 :: "string \<Rightarrow> int \<Rightarrow> string" where
  "slice0 s e =
     (let len = int (length s);
          k = (if e < 0 then max (len + e) 0 else min e len)
      in take (nat k) s)"

subsection \<open>Getters\<close>

definition getResource :: "world \<Rightarrow> nat \<Rightarrow> URI" where
  "getResource st i = resource (heap st i)"

definition isUntitled :: "world \<Rightarrow> nat \<Rightarrow> bool" where
  "isUntitled st i = (scheme (resource (heap st i)) = SearchEditorScheme)"

definition isDirty :: "world \<Rightarrow> nat \<Rightarrow> bool" where
  "isDirty st i = dirty (heap st i)"

definition getConfigSync :: "world \<Rightarrow> nat \<Rightarrow> SearchConfiguration option" where
  "getConfigSync st i = this_query (heap st i)"

definition isSaving :: "world \<Rightarrow> nat \<Rightarrow> bool" where
  "isSaving st i =
     (if \<not> isDirty st i then False
      else if isUntitled st i then False
      else if autoSaveMode st = AFTER_SHORT_DELAY then True
      else False)"

definition trimToMax :: "int \<Rightarrow> string \<Rightarrow> string" where
  "trimToMax maxLength label =
     (if int (length label) < maxLength then label
      else slice0 label (maxLength - 3) @ ''...'')"

text \<open>
  \<^verbatim>\<open>getName(maxLength = 12)\<close>: \<open>None\<close> is the call without an argument.
  \<^verbatim>\<open>this.query?.query?.trim()\<close> is undefined when the configuration or its
  query is, and the empty string is as false as undefined.
\<close>

definition getName :: "host \<Rightarrow> world \<Rightarrow> nat \<Rightarrow> int option \<Rightarrow> string" where
  "getName h st i maxLengthArg =
     (let maxLength = (case maxLengthArg of None \<Rightarrow> 12 | Some n \<Rightarrow> n) in
      if isUntitled st i then
        (let q = (case this_query (heap st i) of
                    None \<Rightarrow> None
                  | Some c \<Rightarrow> (case query c of None \<Rightarrow> None | Some s \<Rightarrow> Some (trim s)))
         in case q of
              None \<Rightarrow> localize h ''searchTitle'' ''Search'' []
            | Some s \<Rightarrow>
                if s \<noteq> [] then
                  localize h ''searchTitle.withQuery'' ''Search: {0}'' [trimToMax maxLength s]
                else localize h ''searchTitle'' ''Search'' [])
      else localize h ''searchTitle.withQuery'' ''Search: {0}''
             [basename h (path (resource (heap st i))) ''.code-search''])"

text \<open>
  The argument of \<^verbatim>\<open>matches\<close> has type \<^verbatim>\<open>unknown\<close>: a reference to
  a search editor input, or any other value.
\<close>

datatype unknown =
  InputRef nat
  | OtherValue

definition matches :: "world \<Rightarrow> nat \<Rightarrow> unknown \<Rightarrow> bool" where
  "matches st i other =
     (if other = InputRef i then True
      else case other of
        InputRef j \<Rightarrow>
          (if (path (resource (heap st j)) \<noteq> [] \<and>
               path (resource (heap st j)) = path (resource (heap st i))) \<or>
              (fragment (resource (heap st j)) \<noteq> [] \<and>
               fragment (resource (heap st j)) = fragment (resource (heap st i)))
           then True else False)
      | OtherValue \<Rightarrow> False)"

text \<open>The getter \<^verbatim>\<open>highlights\<close> keeps range and options of each decoration.\<close>

definition highlights :: "world \<Rightarrow> nat \<Rightarrow> IModelDecoration list" where
  "highlights st i =
     map (\<lambda>d. \<lparr>dec_id = None, dec_range = dec_range d, dec_options = dec_options d\<rparr>)
       (case highlights_field (heap st i) of None \<Rightarrow> [] | Some ds \<Rightarrow> ds)"

subsection \<open>The model of a search editor\<close>

text \<open>
  Modelled from the spec: the class \<^verbatim>\<open>SearchEditorModel\<close> of
  \<^verbatim>\<open>searchEditorModel.ts\<close> is not part of this file, which only constructs it
  and calls \<^verbatim>\<open>isDisposed\<close>, \<^verbatim>\<open>createSnapshot\<close>,
  \<^verbatim>\<open>setConfig\<close>, \<^verbatim>\<open>searchConfig\<close> and
  \<^verbatim>\<open>resultsTextModel\<close>. The spec has it hold "a text buffer model and a
  structured search configuration", with parsing left to the serialization module: built
  from a text model and a configuration it holds both; built from raw contents it holds a
  text model of these contents and the configuration parsed from them. The text model is
  held by value: what the model service keeps under the same uri is not updated with it.
\<close>

definition SearchEditorModel_fromTextModel ::
  "TextModel \<Rightarrow> SearchConfiguration \<Rightarrow> SearchEditorModel" where
  "SearchEditorModel_fromTextModel existing config =
     \<lparr>resultsTextModel = existing, searchConfig = config, model_disposed = False\<rparr>"

definition SearchEditorModel_fromRaw :: "host \<Rightarrow> string \<Rightarrow> SearchEditorModel" where
  "SearchEditorModel_fromRaw h contents =
     \<lparr>resultsTextModel = \<lparr>tm_value = contents, tm_decorations = []\<rparr>,
      searchConfig = extractSearchQuery h contents,
      model_disposed = False\<rparr>"

definition createSnapshot :: "SearchEditorModel \<Rightarrow> string" where
  "createSnapshot m = tm_value (resultsTextModel m)"

definition isDisposed :: "SearchEditorModel \<Rightarrow> bool" where
  "isDisposed m = model_disposed m"

definition getAllDecorations :: "TextModel \<Rightarrow> IModelDecoration list" where
  "getAllDecorations tm = tm_decorations tm"

definition deltaDecorations :: "TextModel \<Rightarrow> IModelDecoration list \<Rightarrow> TextModel" where
  "deltaDecorations tm new = tm\<lparr>tm_decorations := tm_decorations tm @ new\<rparr>"

subsection \<open>Creating inputs: the registry\<close>

text \<open>
  The argument \<^verbatim>\<open>existingData\<close> of \<^verbatim>\<open>getOrMakeSearchEditorInput\<close>: a
  uri with an optional configuration, or a text, or a configuration. A field the
  variant does not have reads as undefined.
\<close>

datatype existingData =
  WithUri URI "SearchConfiguration option"
  | WithText string
  | WithConfig SearchConfiguration

fun ed_uri :: "existingData \<Rightarrow> URI option" where
  "ed_uri (WithUri u c) = Some u"
| "ed_uri (WithText t) = None"
| "ed_uri (WithConfig c) = None"

fun ed_config :: "existingData \<Rightarrow> SearchConfiguration option" where
  "ed_config (WithUri u c) = c"
| "ed_config (WithText t) = None"
| "ed_config (WithConfig c) = Some c"

fun ed_text :: "existingData \<Rightarrow> string option" where
  "ed_text (WithUri u c) = None"
| "ed_text (WithText t) = Some t"
| "ed_text (WithConfig c) = None"

text \<open>
  The test \<^verbatim>\<open>existingData.text ? ... : ...\<close>: the empty string is as false as
  undefined.
\<close>

definition truthyText :: "string option \<Rightarrow> string option" where
  "truthyText t = (case t of None \<Rightarrow> None | Some s \<Rightarrow> if s \<noteq> [] then Some s else None)"

text \<open>
  The closure \<^verbatim>\<open>getModel\<close>. With a text model for the uri it wraps that one and
  asks no other service. Otherwise it resolves the backup and discards it, whether or not
  there was one, and takes the contents from the first source there is. Reading a file
  that is not there rejects.
\<close>

definition getModel ::
  "host \<Rightarrow> URI \<Rightarrow> existingData \<Rightarrow> SearchConfiguration \<Rightarrow> world
     \<Rightarrow> (error + SearchEditorModel) \<times> world" where
  "getModel h uri existingData config st =
     (case textModels st uri of
        Some existing \<Rightarrow> (Inr (SearchEditorModel_fromTextModel existing config), st)
      | None \<Rightarrow>
          (let backup = backups st uri;
               st1 = st\<lparr>backups := (backups st)(uri := None)\<rparr>
           in case backup of
                Some b \<Rightarrow> (Inr (SearchEditorModel_fromRaw h b), st1)
              | None \<Rightarrow>
                  if scheme uri \<noteq> SearchEditorScheme then
                    (let st2 = st1\<lparr>textFileCalls := textFileCalls st1 @ [ReadCall uri]\<rparr>
                     in case files st2 uri of
                          Some v \<Rightarrow> (Inr (SearchEditorModel_fromRaw h v), st2)
                        | None \<Rightarrow> (Inl (FileReadError uri), st2))
                  else
                    (case truthyText (ed_text existingData) of
                       Some t \<Rightarrow> (Inr (SearchEditorModel_fromRaw h t), st1)
                     | None \<Rightarrow>
                         (case ed_config existingData of
                            Some c \<Rightarrow>
                              (Inr (SearchEditorModel_fromRaw h
                                      (serializeSearchConfiguration h c)), st1)
                          | None \<Rightarrow> (Inl NoInitialContents, st1)))))"

text \<open>
  The constructor: it calls \<^verbatim>\<open>getModel\<close>, builds the working copy adapter
  from the new object, registers it, and stores the starting configuration. The new
  object takes the next free reference.
\<close>

definition newSearchEditorInput ::
  "world \<Rightarrow> URI \<Rightarrow> (world \<Rightarrow> (error + SearchEditorModel) \<times> world)
     \<Rightarrow> SearchConfiguration option \<Rightarrow> nat \<times> world" where
  "newSearchEditorInput st uri getModelFn startingConfig =
     (let (m, st1) = getModelFn st;
          i = allocated st1;
          this = \<lparr>resource = uri, dirty = False, model = m, this_query = None,
                  highlights_field = None, disposed = False, onDisposeKeys = []\<rparr>;
          st2 = st1\<lparr>heap := (heap st1)(i := this), allocated := Suc i\<rparr>;
          workingCopyAdapter =
            \<lparr>wc_input = i,
             wc_resource = getResource st2 i,
             wc_capabilities = (if isUntitled st2 i then {Untitled} else {})\<rparr>;
          st3 = st2\<lparr>workingCopies := workingCopies st2 @ [workingCopyAdapter]\<rparr>
      in (i, st3\<lparr>heap := (heap st3)(i := (heap st3 i)\<lparr>this_query := startingConfig\<rparr>)\<rparr>))"

text \<open>
  \<^verbatim>\<open>getOrMakeSearchEditorInput\<close>. \<open>rnd\<close> is the text of
  \<^verbatim>\<open>Math.random()\<close>, read only when no uri is given. An input found under the
  key is returned as it is; a new one is stored under the key, and its
  \<^verbatim>\<open>onDispose\<close> gets the listener that deletes the key.
\<close>

definition getOrMakeSearchEditorInput ::
  "host \<Rightarrow> world \<Rightarrow> existingData \<Rightarrow> string \<Rightarrow> nat \<times> world" where
  "getOrMakeSearchEditorInput h st existingData rnd =
     (let uri = (case ed_uri existingData of
                   Some u \<Rightarrow> u
                 | None \<Rightarrow> URI_from SearchEditorScheme [] rnd)
      in case inputs st (uriToString h uri) of
           Some existing \<Rightarrow> (existing, st)
         | None \<Rightarrow>
             (let config =
                    (case ed_config existingData of
                       Some c \<Rightarrow> c
                     | None \<Rightarrow>
                         (case truthyText (ed_text existingData) of
                            Some t \<Rightarrow> extractSearchQuery h t
                          | None \<Rightarrow> emptyConfig));
                  (input, st1) =
                    newSearchEditorInput st uri (getModel h uri existingData config) (Some config);
                  st2 = st1\<lparr>inputs := (inputs st1)(uriToString h uri \<mapsto> input)\<rparr>;
                  st3 = st2\<lparr>heap := (heap st2)(input := (heap st2 input)
                           \<lparr>onDisposeKeys :=
                              onDisposeKeys (heap st2 input) @ [uriToString h uri]\<rparr>)\<rparr>
              in (input, st3)))"

subsection \<open>Methods that change the input\<close>

text \<open>An assignment to fields of the object behind a reference.\<close>

definition updInput :: "world \<Rightarrow> nat \<Rightarrow> (SearchEditorInput \<Rightarrow> SearchEditorInput) \<Rightarrow> world" where
  "updInput st i f = st\<lparr>heap := (heap st)(i := f (heap st i))\<rparr>"

text \<open>
  \<^verbatim>\<open>setDirty\<close> assigns the flag and fires \<^verbatim>\<open>onDidChangeDirty\<close> twice;
  no listener of that event is part of this file.
\<close>

definition setDirty :: "world \<Rightarrow> nat \<Rightarrow> bool \<Rightarrow> world" where
  "setDirty st i d = updInput st i (\<lambda>x. x\<lparr>dirty := d\<rparr>)"

definition reloadModel :: "world \<Rightarrow> nat \<Rightarrow> (error + SearchEditorModel) \<times> world" where
  "reloadModel st i =
     (case model (heap st i) of
        Inl e \<Rightarrow> (Inl e, st)
      | Inr m \<Rightarrow>
          (Inr m,
           updInput st i (\<lambda>x. x\<lparr>this_query := Some (searchConfig m),
                                highlights_field := Some (getAllDecorations (resultsTextModel m))\<rparr>)))"

text \<open>
  \<^verbatim>\<open>setConfig\<close> hands the configuration to the model, which keeps it (see the
  model above).
\<close>

definition setConfig :: "world \<Rightarrow> nat \<Rightarrow> SearchConfiguration \<Rightarrow> world" where
  "setConfig st i config =
     (case model (heap st i) of
        Inl e \<Rightarrow> st
      | Inr m \<Rightarrow> updInput st i (\<lambda>x. x\<lparr>model := Inr (m\<lparr>searchConfig := config\<rparr>)\<rparr>))"

definition setHighlights :: "world \<Rightarrow> nat \<Rightarrow> IModelDecoration list option \<Rightarrow> world" where
  "setHighlights st i v =
     (case v of
        None \<Rightarrow> st
      | Some ds \<Rightarrow>
          (case model (heap st i) of
             Inl e \<Rightarrow> st
           | Inr m \<Rightarrow>
               updInput st i
                 (\<lambda>x. x\<lparr>model := Inr (m\<lparr>resultsTextModel := deltaDecorations (resultsTextModel m) ds\<rparr>),
                        highlights_field := Some ds\<rparr>)))"

record IRevertOptions =
  force :: "bool option"
  soft :: "bool option"

text \<open>
  Modelled from the spec: the base class \<^verbatim>\<open>EditorInput\<close> of
  \<^verbatim>\<open>vs/workbench/common/editor.ts\<close> is not part of this file, which calls its
  \<^verbatim>\<open>revert\<close> and \<^verbatim>\<open>dispose\<close> and listens to its
  \<^verbatim>\<open>onDispose\<close>. The spec has the registry hold "open search editors", an entry
  leaving when its input is disposed. So \<^verbatim>\<open>dispose\<close> marks the input disposed,
  calls the listeners of \<^verbatim>\<open>onDispose\<close>, and disposes what the input
  registered: the event, whose listeners are gone from then on, and the model.
  \<^verbatim>\<open>revert\<close> changes nothing and answers true.
\<close>

definition EditorInput_revert ::
  "world \<Rightarrow> nat \<Rightarrow> int \<Rightarrow> IRevertOptions option \<Rightarrow> bool \<times> world" where
  "EditorInput_revert st i grp options = (True, st)"

definition EditorInput_dispose :: "world \<Rightarrow> nat \<Rightarrow> world" where
  "EditorInput_dispose st i =
     (let st1 = updInput st i (\<lambda>x. x\<lparr>disposed := True\<rparr>);
          st2 = st1\<lparr>inputs := fold (\<lambda>k m. m(k := None)) (onDisposeKeys (heap st1 i)) (inputs st1)\<rparr>
      in updInput st2 i
           (\<lambda>x. x\<lparr>onDisposeKeys := [],
                  model := (case model x of
                              Inl e \<Rightarrow> Inl e
                            | Inr m \<Rightarrow> Inr (m\<lparr>model_disposed := True\<rparr>))\<rparr>))"

definition revert :: "world \<Rightarrow> nat \<Rightarrow> int \<Rightarrow> IRevertOptions option \<Rightarrow> bool \<times> world" where
  "revert st i grp options =
     (let (r, st1) = EditorInput_revert st i grp options;
          st2 = setDirty st1 i False
      in (True, st2))"

definition backup :: "world \<Rightarrow> nat \<Rightarrow> error + string" where
  "backup st i =
     (case model (heap st i) of
        Inl e \<Rightarrow> Inl e
      | Inr m \<Rightarrow> Inr (createSnapshot m))"

text \<open>\<^verbatim>\<open>dispose\<close>: the text model of the resource is destroyed, then the base class.\<close>

definition dispose :: "world \<Rightarrow> nat \<Rightarrow> world" where
  "dispose st i =
     (let st1 = st\<lparr>textModels := (textModels st)(resource (heap st i) := None)\<rparr>
      in EditorInput_dispose st1 i)"

subsection \<open>Saving\<close>

text \<open>
  \<^verbatim>\<open>query.replace(/[^\w \-_]+/g, '_')\<close>: every maximal run of characters other than
  letters, digits, underscore, space and hyphen becomes one underscore.
\<close>

definition isFileNameChar :: "char \<Rightarrow> bool" where
  "isFileNameChar c =
     (let n = (of_char c :: nat)
      in (65 \<le> n \<and> n \<le> 90) \<or> (97 \<le> n \<and> n \<le> 122) \<or> (48 \<le> n \<and> n \<le> 57)
         \<or> n = 95 \<or> n = 32 \<or> n = 45)"

function replaceRuns :: "string \<Rightarrow> string" where
  "replaceRuns [] = []"
| "replaceRuns (c # cs) =
     (if isFileNameChar c then c # replaceRuns cs
      else CHR ''_'' # replaceRuns (dropWhile (\<lambda>d. \<not> isFileNameChar d) cs))"
  by pat_completeness auto
termination
  by (relation "measure length") (auto simp: less_Suc_eq_le length_dropWhile_le)

text \<open>
  \<^verbatim>\<open>suggestFileName\<close> reloads the model first; \<^verbatim>\<open>query.replace\<close> on a
  configuration without a query is a type error.
\<close>

definition suggestFileName :: "host \<Rightarrow> world \<Rightarrow> nat \<Rightarrow> (error + URI) \<times> world" where
  "suggestFileName h st i =
     (case reloadModel st i of
        (Inl e, st1) \<Rightarrow> (Inl e, st1)
      | (Inr m, st1) \<Rightarrow>
          (case query (searchConfig m) of
             None \<Rightarrow> (Inl TypeError, st1)
           | Some q \<Rightarrow>
               (let replaced = replaceRuns q;
                    searchFileName = (if replaced \<noteq> [] then replaced else ''Search'') @ ''.code-search'';
                    schemeFilter =
                      (case remoteAuthority h of
                         None \<Rightarrow> Schemas_file
                       | Some a \<Rightarrow> if a \<noteq> [] then Schemas_vscodeRemote else Schemas_file)
                in case defaultFilePath h schemeFilter of
                     Some d \<Rightarrow> (Inr (joinPath h d searchFileName), st1)
                   | None \<Rightarrow>
                       (Inr (toLocalResource h (URI_from schemeFilter searchFileName [])
                               (remoteAuthority h)), st1))))"

text \<open>\<^verbatim>\<open>{ ...this.query }\<close>: a copy of the configuration, \<^verbatim>\<open>{}\<close> when there is none.\<close>

definition spreadConfig :: "SearchConfiguration option \<Rightarrow> SearchConfiguration" where
  "spreadConfig c = (case c of None \<Rightarrow> emptyConfig | Some x \<Rightarrow> x)"

text \<open>
  The text file service writes. Whether a write succeeds is the host's: \<open>written\<close>
  false is a \<^verbatim>\<open>write\<close> that rejects, \<open>saved\<close> false a
  \<^verbatim>\<open>saveAs\<close> that answers no target. The call is recorded either way; a
  write that succeeds leaves the contents at its target. The contents
  \<^verbatim>\<open>saveAs\<close> copies are those of the source.
\<close>

definition textFileService_write ::
  "world \<Rightarrow> URI \<Rightarrow> string \<Rightarrow> ITextFileSaveOptions option \<Rightarrow> bool
     \<Rightarrow> (error + unit) \<times> world" where
  "textFileService_write st uri contents options written =
     (let st1 = st\<lparr>textFileCalls := textFileCalls st @ [WriteCall uri contents options]\<rparr>
      in if written then (Inr (), st1\<lparr>files := (files st1)(uri \<mapsto> contents)\<rparr>)
         else (Inl (FileWriteError uri), st1))"

definition textFileService_saveAs ::
  "world \<Rightarrow> URI \<Rightarrow> URI \<Rightarrow> ITextFileSaveOptions option \<Rightarrow> string \<Rightarrow> bool
     \<Rightarrow> bool \<times> world" where
  "textFileService_saveAs st source target options contents saved =
     (let st1 = st\<lparr>textFileCalls := textFileCalls st @ [SaveAsCall source target options]\<rparr>
      in if saved then (True, st1\<lparr>files := (files st1)(target \<mapsto> contents)\<rparr>)
         else (False, st1))"

text \<open>
  \<^verbatim>\<open>saveAs\<close>. \<open>picked\<close> is what the dialog's \<^verbatim>\<open>pickFileToSave\<close>
  answers when it is asked (\<open>None\<close>: no path). The contents of the input's resource
  are those its model holds. The result \<open>Inr None\<close> is undefined,
  \<open>Inr (Some j)\<close> the input \<open>j\<close>.
\<close>

definition saveAs ::
  "host \<Rightarrow> world \<Rightarrow> nat \<Rightarrow> int \<Rightarrow> ITextFileSaveOptions option \<Rightarrow> URI option \<Rightarrow> bool
     \<Rightarrow> (error + nat option) \<times> world" where
  "saveAs h st i grp options picked saved =
     (case suggestFileName h st i of
        (Inl e, st1) \<Rightarrow> (Inl e, st1)
      | (Inr suggested, st1) \<Rightarrow>
          (let st2 = st1\<lparr>dialogRequests := dialogRequests st1 @
                        [(suggested, (case options of None \<Rightarrow> None
                                      | Some opt \<Rightarrow> availableFileSystems opt))]\<rparr>
           in case picked of
                None \<Rightarrow> (Inr None, st2)
              | Some p \<Rightarrow>
                  (let st3 = st2\<lparr>telemetry := telemetry st2 @ [''searchEditor/saveSearchResults'']\<rparr>;
                       (answered, st4) =
                         textFileService_saveAs st3 (resource (heap st3 i)) p options
                           (case model (heap st3 i) of Inl e \<Rightarrow> [] | Inr m \<Rightarrow> createSnapshot m)
                           saved
                   in if answered then
                        (let st5 = setDirty st4 i False
                         in if \<not> isEqual h p (resource (heap st5 i)) then
                              (let (input, st6) =
                                     getOrMakeSearchEditorInput h st5
                                       (WithUri p (Some (spreadConfig (this_query (heap st5 i))))) [];
                                   st7 = setHighlights st6 input (Some (highlights st6 i))
                               in (Inr (Some input), st7))
                            else (Inr (Some i), st5))
                      else (Inr None, st4))))"

text \<open>
  \<^verbatim>\<open>save\<close>. The write is awaited before the dirty flag is cleared: when it
  rejects, \<^verbatim>\<open>save\<close> rejects and the flag is as it was.
\<close>

definition save ::
  "host \<Rightarrow> world \<Rightarrow> nat \<Rightarrow> int \<Rightarrow> ITextFileSaveOptions option \<Rightarrow> URI option \<Rightarrow> bool
     \<Rightarrow> bool \<Rightarrow> (error + nat option) \<times> world" where
  "save h st i grp options picked saved written =
     (case model (heap st i) of
        Inl e \<Rightarrow> (Inl e, st)
      | Inr m \<Rightarrow>
          if isDisposed m then (Inr None, st)
          else if isUntitled st i then saveAs h st i grp options picked saved
          else
            (case textFileService_write st (resource (heap st i)) (createSnapshot m) options
                    written of
               (Inl e, st1) \<Rightarrow> (Inl e, st1)
             | (Inr u, st1) \<Rightarrow>
                 (let st2 = setDirty st1 i False
                  in (Inr (Some i), st2))))"

subsection \<open>The working copy\<close>

text \<open>The methods of the adapter: each calls the input it closes over.\<close>

definition wc_name :: "host \<Rightarrow> world \<Rightarrow> WorkingCopy \<Rightarrow> string" where
  "wc_name h st wc = getName h st (wc_input wc) None"

definition wc_isDirty :: "world \<Rightarrow> WorkingCopy \<Rightarrow> bool" where
  "wc_isDirty st wc = isDirty st (wc_input wc)"

definition wc_backup :: "world \<Rightarrow> WorkingCopy \<Rightarrow> error + string" where
  "wc_backup st wc = backup st (wc_input wc)"

definition wc_save ::
  "host \<Rightarrow> world \<Rightarrow> WorkingCopy \<Rightarrow> ITextFileSaveOptions option \<Rightarrow> URI option \<Rightarrow> bool
     \<Rightarrow> bool \<Rightarrow> (error + bool) \<times> world" where
  "wc_save h st wc options picked saved written =
     (let (r, st1) = save h st (wc_input wc) 0 options picked saved written
      in (case r of Inl e \<Rightarrow> Inl e | Inr editor \<Rightarrow> Inr (editor \<noteq> None), st1))"

definition wc_revert :: "world \<Rightarrow> WorkingCopy \<Rightarrow> IRevertOptions option \<Rightarrow> bool \<times> world" where
  "wc_revert st wc options = revert st (wc_input wc) 0 options"

subsection \<open>Reachable states\<close>

text \<open>
  What a program can do with this file: get or make an input, construct one directly (the
  class is exported; the model promise it is given is taken as settled), and call the
  methods of inputs it holds. Between two calls the host may change what its services
  hold.
\<close>

datatype operation =
  GetOrMake existingData string
  | Construct URI "error + SearchEditorModel" "SearchConfiguration option"
  | Dispose nat
  | Save nat int "ITextFileSaveOptions option" "URI option" bool bool
  | SaveAs nat int "ITextFileSaveOptions option" "URI option" bool
  | Revert nat int "IRevertOptions option"
  | SetDirty nat bool
  | ReloadModel nat
  | SetConfig nat SearchConfiguration
  | SetHighlights nat "IModelDecoration list option"
  | HostChange "URI \<rightharpoonup> TextModel" "URI \<rightharpoonup> string" "URI \<rightharpoonup> string" AutoSaveMode

fun target :: "operation \<Rightarrow> nat option" where
  "target (GetOrMake ed rnd) = None"
| "target (Construct u m c) = None"
| "target (Dispose i) = Some i"
| "target (Save i g opts picked saved written) = Some i"
| "target (SaveAs i g opts picked saved) = Some i"
| "target (Revert i g opts) = Some i"
| "target (SetDirty i d) = Some i"
| "target (ReloadModel i) = Some i"
| "target (SetConfig i c) = Some i"
| "target (SetHighlights i v) = Some i"
| "target (HostChange tm bk fl mode) = None"

fun perform :: "host \<Rightarrow> world \<Rightarrow> operation \<Rightarrow> world" where
  "perform h st (GetOrMake ed rnd) = snd (getOrMakeSearchEditorInput h st ed rnd)"
| "perform h st (Construct u m c) = snd (newSearchEditorInput st u (\<lambda>s. (m, s)) c)"
| "perform h st (Dispose i) = dispose st i"
| "perform h st (Save i g opts picked saved written) =
     snd (save h st i g opts picked saved written)"
| "perform h st (SaveAs i g opts picked saved) = snd (saveAs h st i g opts picked saved)"
| "perform h st (Revert i g opts) = snd (revert st i g opts)"
| "perform h st (SetDirty i d) = setDirty st i d"
| "perform h st (ReloadModel i) = snd (reloadModel st i)"
| "perform h st (SetConfig i c) = setConfig st i c"
| "perform h st (SetHighlights i v) = setHighlights st i v"
| "perform h st (HostChange tm bk fl mode) =
     st\<lparr>textModels := tm, backups := bk, files := fl, autoSaveMode := mode\<rparr>"

text \<open>A method is called on a reference that exists; any other call is no step.\<close>

definition exec :: "host \<Rightarrow> world \<Rightarrow> operation \<Rightarrow> world" where
  "exec h st op =
     (case target op of
        None \<Rightarrow> perform h st op
      | Some i \<Rightarrow> if i < allocated st then perform h st op else st)"

definition run :: "host \<Rightarrow> world \<Rightarrow> operation list \<Rightarrow> world" where
  "run h st ops = foldl (exec h) st ops"

text \<open>At the start no input exists and the registry is empty; the services hold anything.\<close>

definition initial :: "world \<Rightarrow> bool" where
  "initial st =
     (allocated st = 0 \<and> inputs st = Map.empty \<and> workingCopies st = [] \<and>
      telemetry st = [] \<and> textFileCalls st = [] \<and> dialogRequests st = [])"

definition reachable :: "host \<Rightarrow> world \<Rightarrow> bool" where
  "reachable h st = (\<exists>st0 ops. initial st0 \<and> st = run h st0 ops)"

subsection \<open>The registry invariant\<close>

text \<open>
  What the registry keeps: an entry names an existing input that is not disposed, under
  the string of that input's resource, and that input has the one listener that deletes
  the entry; and a listener of an input deletes an entry of that input. So a disposed
  input has neither entry nor listener.
\<close>

definition registry_inv :: "host \<Rightarrow> world \<Rightarrow> bool" where
  "registry_inv h st =
     ((\<forall>k i. inputs st k = Some i \<longrightarrow>
          i < allocated st \<and> \<not> disposed (heap st i)
          \<and> uriToString h (resource (heap st i)) = k
          \<and> onDisposeKeys (heap st i) = [k])
      \<and> (\<forall>i k. i < allocated st \<and> k \<in> set (onDisposeKeys (heap st i)) \<longrightarrow>
            inputs st k = Some i))"

text \<open>
  A later state: no reference is lost, no resource changes, a disposed input stays
  disposed, and an input keeps its listeners until it is disposed.
\<close>

definition extends :: "world \<Rightarrow> world \<Rightarrow> bool" where
  "extends st st' =
     (allocated st \<le> allocated st'
      \<and> (\<forall>j. j < allocated st \<longrightarrow>
            resource (heap st' j) = resource (heap st j)
            \<and> (disposed (heap st j) \<longrightarrow> disposed (heap st' j))
            \<and> (disposed (heap st' j)
                \<or> onDisposeKeys (heap st' j) = onDisposeKeys (heap st j))))"

text \<open>The contents a settled model promise holds, or its rejection.\<close>

definition resolvedContents :: "error + SearchEditorModel \<Rightarrow> error + string" where
  "resolvedContents r = (case r of Inl e \<Rightarrow> Inl e | Inr m \<Rightarrow> Inr (createSnapshot m))"

subsection \<open>Example data\<close>

text \<open>
  A host for the examples: a uri prints as scheme, path and fragment, the parser of
  configurations takes the whole text as the query, messages have their argument put in.
\<close>

fun formatMessage :: "string \<Rightarrow> string list \<Rightarrow> string" where
  "formatMessage (a # b # c # rest) args =
     (if [a, b, c] = ''{0}'' then (case args of [] \<Rightarrow> [] | x # xs \<Rightarrow> x) @ formatMessage rest args
      else a # formatMessage (b # c # rest) args)"
| "formatMessage s args = s"

definition exampleHost :: host where
  "exampleHost =
     \<lparr>uriToString = (\<lambda>u. scheme u @ '':'' @ path u @ ''#'' @ fragment u),
      extractSearchQuery = (\<lambda>t. \<lparr>query = Some t, otherFields = []\<rparr>),
      serializeSearchConfiguration =
        (\<lambda>c. ''# Query: '' @ (case query c of None \<Rightarrow> [] | Some q \<Rightarrow> q)),
      basename = (\<lambda>p ext. p),
      localize = (\<lambda>key message args. formatMessage message args),
      isEqual = (\<lambda>a b. a = b),
      joinPath = (\<lambda>u s. u\<lparr>path := path u @ ''/'' @ s\<rparr>),
      toLocalResource = (\<lambda>u a. u),
      remoteAuthority = None,
      defaultFilePath = (\<lambda>s. None)\<rparr>"

definition blankInput :: SearchEditorInput where
  "blankInput =
     \<lparr>resource = \<lparr>scheme = [], authority = [], path = [], uri_query = [], fragment = []\<rparr>,
      dirty = False, model = Inl NoInitialContents,
      this_query = None, highlights_field = None, disposed = False, onDisposeKeys = []\<rparr>"

definition emptyWorld :: world where
  "emptyWorld =
     \<lparr>heap = (\<lambda>i. blankInput), allocated = 0, inputs = Map.empty, textModels = Map.empty,
      backups = Map.empty, files = Map.empty, textFileCalls = [], workingCopies = [],
      telemetry = [], dialogRequests = [], autoSaveMode = OFF\<rparr>"

definition exampleUntitled :: URI where
  "exampleUntitled = URI_from SearchEditorScheme [] ''0.5''"

definition exampleFile :: URI where
  "exampleFile = URI_from Schemas_file ''/a.code-search'' []"

definition exampleRemote :: URI where
  "exampleRemote = URI_from Schemas_vscodeRemote ''/a.code-search'' []"

definition exampleConfig :: SearchConfiguration where
  "exampleConfig = \<lparr>query = Some ''  a very long search query '', otherFields = []\<rparr>"

definition exampleDecoration :: IModelDecoration where
  "exampleDecoration =
     \<lparr>dec_id = Some ''d1'', dec_range = ''1:1-1:4'', dec_options = ''findMatch''\<rparr>"

section \<open>Properties\<close>

subsection \<open>Labels\<close>

lemma length_trimToMax_12: "length (trimToMax 12 s) \<le> 12"
  by (simp add: trimToMax_def slice0_def Let_def)

lemma trimToMax_short: "length s < 12 \<Longrightarrow> trimToMax 12 s = s"
  by (simp add: trimToMax_def)

lemma trimToMax_long: "12 \<le> length s \<Longrightarrow> trimToMax 12 s = take 9 s @ ''...''"
  by (simp add: trimToMax_def slice0_def Let_def)

subsection \<open>The invariant is kept\<close>

lemma extends_refl: "extends st st"
  by (simp add: extends_def)

lemma extends_trans:
  assumes "extends a b" and "extends b c"
  shows "extends a c"
  unfolding extends_def
proof (intro conjI allI impI)
  show "allocated a \<le> allocated c" using assms by (simp add: extends_def)
next
  fix j assume j: "j < allocated a"
  then have jb: "j < allocated b" using assms(1) by (simp add: extends_def)
  from assms(1) j have ab: "resource (heap b j) = resource (heap a j)"
    "disposed (heap a j) \<longrightarrow> disposed (heap b j)"
    "disposed (heap b j) \<or> onDisposeKeys (heap b j) = onDisposeKeys (heap a j)"
    by (simp_all add: extends_def)
  from assms(2) jb have bc: "resource (heap c j) = resource (heap b j)"
    "disposed (heap b j) \<longrightarrow> disposed (heap c j)"
    "disposed (heap c j) \<or> onDisposeKeys (heap c j) = onDisposeKeys (heap b j)"
    by (simp_all add: extends_def)
  show "resource (heap c j) = resource (heap a j)" using ab(1) bc(1) by simp
  show "disposed (heap c j) \<or> onDisposeKeys (heap c j) = onDisposeKeys (heap a j)"
    using ab(3) bc(2) bc(3) by auto
  assume "disposed (heap a j)"
  then show "disposed (heap c j)" using ab(2) bc(2) by simp
qed

lemma invD1:
  "registry_inv h st \<Longrightarrow> inputs st k = Some i \<Longrightarrow>
     i < allocated st \<and> \<not> disposed (heap st i) \<and> uriToString h (resource (heap st i)) = k
     \<and> onDisposeKeys (heap st i) = [k]"
  unfolding registry_inv_def by blast

lemma invD2:
  "registry_inv h st \<Longrightarrow> i < allocated st \<Longrightarrow> k \<in> set (onDisposeKeys (heap st i)) \<Longrightarrow>
     inputs st k = Some i"
  unfolding registry_inv_def by blast

lemma invI:
  assumes "\<And>k i. inputs st k = Some i \<Longrightarrow>
              i < allocated st \<and> \<not> disposed (heap st i)
              \<and> uriToString h (resource (heap st i)) = k \<and> onDisposeKeys (heap st i) = [k]"
    and "\<And>i k. i < allocated st \<Longrightarrow> k \<in> set (onDisposeKeys (heap st i)) \<Longrightarrow>
              inputs st k = Some i"
  shows "registry_inv h st"
  unfolding registry_inv_def using assms by blast

text \<open>An input has no listener, or the one of its entry.\<close>

lemma inv_keys:
  assumes "registry_inv h st" and "i < allocated st"
  shows "onDisposeKeys (heap st i) = []
         \<or> (onDisposeKeys (heap st i) = [uriToString h (resource (heap st i))]
             \<and> inputs st (uriToString h (resource (heap st i))) = Some i
             \<and> \<not> disposed (heap st i))"
proof (cases "onDisposeKeys (heap st i)")
  case Nil
  then show ?thesis by simp
next
  case (Cons k ks)
  then have "k \<in> set (onDisposeKeys (heap st i))" by simp
  then have e: "inputs st k = Some i" using assms by (rule_tac invD2)
  from invD1 [OF assms(1) e] e show ?thesis by auto
qed

lemma updInput_fields [simp]:
  "allocated (updInput st i f) = allocated st"
  "inputs (updInput st i f) = inputs st"
  "heap (updInput st i f) j = (if j = i then f (heap st i) else heap st j)"
  by (simp_all add: updInput_def)

lemma inv_updInput:
  assumes "registry_inv h st"
    and "resource (f (heap st i)) = resource (heap st i)"
    and "disposed (f (heap st i)) = disposed (heap st i)"
    and "onDisposeKeys (f (heap st i)) = onDisposeKeys (heap st i)"
  shows "registry_inv h (updInput st i f)"
proof (rule invI)
  fix k j assume "inputs (updInput st i f) k = Some j"
  then have "inputs st k = Some j" by simp
  from invD1 [OF assms(1) this] assms(2-4)
  show "j < allocated (updInput st i f) \<and> \<not> disposed (heap (updInput st i f) j)
        \<and> uriToString h (resource (heap (updInput st i f) j)) = k
        \<and> onDisposeKeys (heap (updInput st i f) j) = [k]"
    by auto
next
  fix j k assume "j < allocated (updInput st i f)" "k \<in> set (onDisposeKeys (heap (updInput st i f) j))"
  then have "j < allocated st" "k \<in> set (onDisposeKeys (heap st j))"
    using assms(4) by (simp_all split: if_splits)
  then show "inputs (updInput st i f) k = Some j"
    using invD2 [OF assms(1)] by simp
qed

lemma ext_updInput:
  assumes "resource (f (heap st i)) = resource (heap st i)"
    and "disposed (f (heap st i)) = disposed (heap st i)"
    and "onDisposeKeys (f (heap st i)) = onDisposeKeys (heap st i)"
  shows "extends st (updInput st i f)"
  using assms by (simp add: extends_def)

lemma inv_setDirty: "registry_inv h st \<Longrightarrow> registry_inv h (setDirty st i d)"
  unfolding setDirty_def by (rule inv_updInput) simp_all

lemma ext_setDirty: "extends st (setDirty st i d)"
  unfolding setDirty_def by (rule ext_updInput) simp_all

lemma inv_reloadModel: "registry_inv h st \<Longrightarrow> registry_inv h (snd (reloadModel st i))"
  unfolding reloadModel_def by (auto split: sum.splits intro!: inv_updInput)

lemma ext_reloadModel: "extends st (snd (reloadModel st i))"
  unfolding reloadModel_def by (auto split: sum.splits intro!: ext_updInput extends_refl)

lemma inv_setConfig: "registry_inv h st \<Longrightarrow> registry_inv h (setConfig st i c)"
  unfolding setConfig_def by (auto split: sum.splits intro!: inv_updInput)

lemma ext_setConfig: "extends st (setConfig st i c)"
  unfolding setConfig_def by (auto split: sum.splits intro!: ext_updInput extends_refl)

lemma inv_setHighlights: "registry_inv h st \<Longrightarrow> registry_inv h (setHighlights st i v)"
  unfolding setHighlights_def by (auto split: sum.splits option.splits intro!: inv_updInput)

lemma ext_setHighlights: "extends st (setHighlights st i v)"
  unfolding setHighlights_def
  by (auto split: sum.splits option.splits intro!: ext_updInput extends_refl)

lemma inv_revert: "registry_inv h st \<Longrightarrow> registry_inv h (snd (revert st i g opts))"
  by (simp add: revert_def EditorInput_revert_def inv_setDirty)

lemma ext_revert: "extends st (snd (revert st i g opts))"
  by (simp add: revert_def EditorInput_revert_def ext_setDirty)

lemma getModel_frame:
  "heap (snd (getModel h uri ed c st)) = heap st"
  "allocated (snd (getModel h uri ed c st)) = allocated st"
  "inputs (snd (getModel h uri ed c st)) = inputs st"
  by (auto simp: getModel_def Let_def split: option.splits)

lemma newInput_props:
  assumes "newSearchEditorInput st uri gm cfg = (i, st')"
    and "heap (snd (gm st)) = heap st" "allocated (snd (gm st)) = allocated st"
        "inputs (snd (gm st)) = inputs st"
  shows "i = allocated st" "allocated st' = Suc (allocated st)" "inputs st' = inputs st"
    "resource (heap st' i) = uri" "\<not> disposed (heap st' i)" "onDisposeKeys (heap st' i) = []"
    "\<And>j. j \<noteq> i \<Longrightarrow> heap st' j = heap st j"
  using assms
  by (auto simp: newSearchEditorInput_def Let_def split: prod.splits)

text \<open>A new object that is not registered keeps the invariant.\<close>

lemma inv_fresh:
  assumes "registry_inv h st"
    and "allocated st' = Suc (allocated st)" and "inputs st' = inputs st"
    and "onDisposeKeys (heap st' (allocated st)) = []"
    and "\<And>j. j \<noteq> allocated st \<Longrightarrow> heap st' j = heap st j"
  shows "registry_inv h st'"
proof (rule invI)
  fix k j assume "inputs st' k = Some j"
  then have e: "inputs st k = Some j" using assms(3) by simp
  from invD1 [OF assms(1) e] have d: "j < allocated st" "\<not> disposed (heap st j)"
    "uriToString h (resource (heap st j)) = k" "onDisposeKeys (heap st j) = [k]" by simp_all
  then have "heap st' j = heap st j" using assms(5) by simp
  then show "j < allocated st' \<and> \<not> disposed (heap st' j)
        \<and> uriToString h (resource (heap st' j)) = k \<and> onDisposeKeys (heap st' j) = [k]"
    using d assms(2) by simp
next
  fix j k assume a: "j < allocated st'" "k \<in> set (onDisposeKeys (heap st' j))"
  then have "j \<noteq> allocated st" using assms(4) by auto
  then have "j < allocated st" "heap st' j = heap st j" using a(1) assms(2) assms(5) by simp_all
  then show "inputs st' k = Some j" using invD2 [OF assms(1), of j k] a(2) assms(3) by simp
qed

lemma ext_fresh:
  assumes "allocated st' = Suc (allocated st)"
    and "\<And>j. j \<noteq> allocated st \<Longrightarrow> heap st' j = heap st j"
  shows "extends st st'"
  using assms by (simp add: extends_def)

lemma inv_construct:
  assumes "registry_inv h st"
  shows "registry_inv h (snd (newSearchEditorInput st uri (\<lambda>s. (m, s)) cfg))"
proof -
  obtain i st' where n: "newSearchEditorInput st uri (\<lambda>s. (m, s)) cfg = (i, st')"
    by (cases "newSearchEditorInput st uri (\<lambda>s. (m, s)) cfg")
  have p: "i = allocated st" "allocated st' = Suc (allocated st)" "inputs st' = inputs st"
    "onDisposeKeys (heap st' i) = []" "\<And>j. j \<noteq> i \<Longrightarrow> heap st' j = heap st j"
    using newInput_props [OF n] by simp_all
  have "registry_inv h st'"
    using assms p(2) p(3) p(4) p(5) unfolding p(1) by (rule inv_fresh)
  then show ?thesis using n by simp
qed

lemma ext_construct: "extends st (snd (newSearchEditorInput st uri (\<lambda>s. (m, s)) cfg))"
proof -
  obtain i st' where n: "newSearchEditorInput st uri (\<lambda>s. (m, s)) cfg = (i, st')"
    by (cases "newSearchEditorInput st uri (\<lambda>s. (m, s)) cfg")
  have p: "i = allocated st" "allocated st' = Suc (allocated st)"
    "\<And>j. j \<noteq> i \<Longrightarrow> heap st' j = heap st j"
    using newInput_props [OF n] by simp_all
  have "extends st st'" using p(2) p(3) unfolding p(1) by (rule ext_fresh)
  then show ?thesis using n by simp
qed

lemma getOrMake_existing:
  assumes "inputs st (uriToString h (case ed_uri ed of Some u \<Rightarrow> u
             | None \<Rightarrow> URI_from SearchEditorScheme [] rnd)) = Some e"
  shows "getOrMakeSearchEditorInput h st ed rnd = (e, st)"
  using assms by (simp add: getOrMakeSearchEditorInput_def Let_def)

lemma getOrMake_new:
  assumes "inputs st (uriToString h uri) = None"
    and "uri = (case ed_uri ed of Some u \<Rightarrow> u | None \<Rightarrow> URI_from SearchEditorScheme [] rnd)"
    and "getOrMakeSearchEditorInput h st ed rnd = (i, st')"
  shows "i = allocated st" "allocated st' = Suc (allocated st)"
    "inputs st' = (inputs st)(uriToString h uri \<mapsto> i)"
    "resource (heap st' i) = uri" "\<not> disposed (heap st' i)"
    "onDisposeKeys (heap st' i) = [uriToString h uri]"
    "\<And>j. j \<noteq> i \<Longrightarrow> heap st' j = heap st j"
proof -
  define config where "config =
    (case ed_config ed of Some c \<Rightarrow> c
     | None \<Rightarrow> (case truthyText (ed_text ed) of Some t \<Rightarrow> extractSearchQuery h t
                | None \<Rightarrow> emptyConfig))"
  obtain j st1 where n: "newSearchEditorInput st uri (getModel h uri ed config) (Some config) = (j, st1)"
    by (cases "newSearchEditorInput st uri (getModel h uri ed config) (Some config)")
  note p = newInput_props [OF n getModel_frame]
  from assms n have r: "i = j"
    "st' = st1\<lparr>inputs := (inputs st1)(uriToString h uri \<mapsto> j),
              heap := (heap st1)(j := (heap st1 j)\<lparr>onDisposeKeys := onDisposeKeys (heap st1 j) @ [uriToString h uri]\<rparr>)\<rparr>"
    by (auto simp: getOrMakeSearchEditorInput_def Let_def config_def)
  show "i = allocated st" using r p by simp
  show "allocated st' = Suc (allocated st)" using r p by simp
  show "inputs st' = (inputs st)(uriToString h uri \<mapsto> i)" using r p by simp
  show "resource (heap st' i) = uri" using r p by simp
  show "\<not> disposed (heap st' i)" using r p by simp
  show "onDisposeKeys (heap st' i) = [uriToString h uri]" using r p by simp
  show "\<And>j. j \<noteq> i \<Longrightarrow> heap st' j = heap st j" using r p by simp
qed

lemma inv_getOrMake:
  assumes "registry_inv h st"
  shows "registry_inv h (snd (getOrMakeSearchEditorInput h st ed rnd))"
proof -
  define uri where "uri = (case ed_uri ed of Some u \<Rightarrow> u | None \<Rightarrow> URI_from SearchEditorScheme [] rnd)"
  obtain i st' where g: "getOrMakeSearchEditorInput h st ed rnd = (i, st')"
    by (cases "getOrMakeSearchEditorInput h st ed rnd")
  show ?thesis
  proof (cases "inputs st (uriToString h uri)")
    case (Some e)
    then have "getOrMakeSearchEditorInput h st ed rnd = (e, st)"
      unfolding uri_def by (rule getOrMake_existing)
    then show ?thesis using assms by simp
  next
    case None
    note p = getOrMake_new [OF None uri_def g]
    have old: "\<And>j. j < allocated st \<Longrightarrow> j \<noteq> i \<and> heap st' j = heap st j"
      using p(1) p(7) by simp
    have "registry_inv h st'"
    proof (rule invI)
      fix k j assume a: "inputs st' k = Some j"
      show "j < allocated st' \<and> \<not> disposed (heap st' j)
            \<and> uriToString h (resource (heap st' j)) = k \<and> onDisposeKeys (heap st' j) = [k]"
      proof (cases "k = uriToString h uri")
        case True
        then have "j = i" using a p(3) by simp
        then show ?thesis using p True by simp
      next
        case False
        then have "inputs st k = Some j" using a p(3) by simp
        from invD1 [OF assms this] show ?thesis using old [of j] p(2) by simp
      qed
    next
      fix j k assume a: "j < allocated st'" "k \<in> set (onDisposeKeys (heap st' j))"
      show "inputs st' k = Some j"
      proof (cases "j = i")
        case True
        then show ?thesis using a(2) p(3) p(6) by simp
      next
        case False
        then have lt: "j < allocated st" using a(1) p(1) p(2) by simp
        then have "k \<in> set (onDisposeKeys (heap st j))" using a(2) old [OF lt] by simp
        from invD2 [OF assms lt this] have e: "inputs st k = Some j" .
        then have "k \<noteq> uriToString h uri" using None by auto
        then show ?thesis using e p(3) by simp
      qed
    qed
    then show ?thesis using g by simp
  qed
qed

lemma ext_getOrMake: "extends st (snd (getOrMakeSearchEditorInput h st ed rnd))"
proof -
  define uri where "uri = (case ed_uri ed of Some u \<Rightarrow> u | None \<Rightarrow> URI_from SearchEditorScheme [] rnd)"
  obtain i st' where g: "getOrMakeSearchEditorInput h st ed rnd = (i, st')"
    by (cases "getOrMakeSearchEditorInput h st ed rnd")
  show ?thesis
  proof (cases "inputs st (uriToString h uri)")
    case (Some e)
    then have "getOrMakeSearchEditorInput h st ed rnd = (e, st)"
      unfolding uri_def by (rule getOrMake_existing)
    then show ?thesis by (simp add: extends_refl)
  next
    case None
    note p = getOrMake_new [OF None uri_def g]
    have "extends st st'" using p(2) p(7) unfolding p(1) by (rule ext_fresh)
    then show ?thesis using g by simp
  qed
qed

lemma getOrMake_result:
  assumes "registry_inv h st" and "getOrMakeSearchEditorInput h st ed rnd = (i, st')"
  shows "i < allocated st' \<and> \<not> disposed (heap st' i)
         \<and> onDisposeKeys (heap st' i) =
             [uriToString h (case ed_uri ed of Some u \<Rightarrow> u | None \<Rightarrow> URI_from SearchEditorScheme [] rnd)]"
proof -
  define uri where "uri = (case ed_uri ed of Some u \<Rightarrow> u | None \<Rightarrow> URI_from SearchEditorScheme [] rnd)"
  show ?thesis
  proof (cases "inputs st (uriToString h uri)")
    case (Some e)
    then have "getOrMakeSearchEditorInput h st ed rnd = (e, st)"
      unfolding uri_def by (rule getOrMake_existing)
    then have "i = e" "st' = st" using assms(2) by simp_all
    then show ?thesis using invD1 [OF assms(1) Some] by (simp add: uri_def)
  next
    case None
    note p = getOrMake_new [OF None uri_def assms(2)]
    show ?thesis using p by (simp add: uri_def)
  qed
qed

lemma getOrMake_snd_inv:
  "registry_inv h st \<Longrightarrow> getOrMakeSearchEditorInput h st ed rnd = (i, st') \<Longrightarrow> registry_inv h st'"
  using inv_getOrMake [of h st ed rnd] by simp

lemma getOrMake_snd_ext:
  "getOrMakeSearchEditorInput h st ed rnd = (i, st') \<Longrightarrow> extends st st'"
  using ext_getOrMake [of st h ed rnd] by simp

lemma dispose_fields:
  "allocated (dispose st i) = allocated st"
  "inputs (dispose st i) = fold (\<lambda>k m. m(k := None)) (onDisposeKeys (heap st i)) (inputs st)"
  "resource (heap (dispose st i) j) = resource (heap st j)"
  "disposed (heap (dispose st i) j) = (j = i \<or> disposed (heap st j))"
  "onDisposeKeys (heap (dispose st i) j) = (if j = i then [] else onDisposeKeys (heap st j))"
  by (simp_all add: dispose_def EditorInput_dispose_def Let_def updInput_def)

lemma inv_dispose:
  assumes "registry_inv h st" and "i < allocated st"
  shows "registry_inv h (dispose st i)"
proof -
  define key where "key = uriToString h (resource (heap st i))"
  from inv_keys [OF assms] consider
    (none) "onDisposeKeys (heap st i) = []"
    | (one) "onDisposeKeys (heap st i) = [key]" "inputs st key = Some i"
    unfolding key_def by blast
  then show ?thesis
  proof cases
    case none
    have inp: "inputs (dispose st i) = inputs st" using none by (simp add: dispose_fields)
    have noti: "\<And>k. inputs st k \<noteq> Some i"
    proof
      fix k assume "inputs st k = Some i"
      from invD1 [OF assms(1) this] none show False by simp
    qed
    show ?thesis
    proof (rule invI)
      fix k j assume a: "inputs (dispose st i) k = Some j"
      then have e: "inputs st k = Some j" using inp by simp
      then have "j \<noteq> i" using noti by auto
      then show "j < allocated (dispose st i) \<and> \<not> disposed (heap (dispose st i) j)
            \<and> uriToString h (resource (heap (dispose st i) j)) = k
            \<and> onDisposeKeys (heap (dispose st i) j) = [k]"
        using invD1 [OF assms(1) e] by (simp add: dispose_fields)
    next
      fix j k assume a: "j < allocated (dispose st i)"
        "k \<in> set (onDisposeKeys (heap (dispose st i) j))"
      then have "j < allocated st" "k \<in> set (onDisposeKeys (heap st j))"
        by (simp_all add: dispose_fields split: if_splits)
      then show "inputs (dispose st i) k = Some j"
        using invD2 [OF assms(1)] inp by simp
    qed
  next
    case one
    have inp: "inputs (dispose st i) = (inputs st)(key := None)"
      using one(1) by (simp add: dispose_fields)
    show ?thesis
    proof (rule invI)
      fix k j assume a: "inputs (dispose st i) k = Some j"
      then have ne: "k \<noteq> key" and e: "inputs st k = Some j"
        using inp by (auto split: if_splits)
      from invD1 [OF assms(1) e] have d: "j < allocated st" "\<not> disposed (heap st j)"
        "uriToString h (resource (heap st j)) = k" "onDisposeKeys (heap st j) = [k]" by simp_all
      have "j \<noteq> i" using d(4) one(1) ne by auto
      then show "j < allocated (dispose st i) \<and> \<not> disposed (heap (dispose st i) j)
            \<and> uriToString h (resource (heap (dispose st i) j)) = k
            \<and> onDisposeKeys (heap (dispose st i) j) = [k]"
        using d by (simp add: dispose_fields)
    next
      fix j k assume a: "j < allocated (dispose st i)"
        "k \<in> set (onDisposeKeys (heap (dispose st i) j))"
      then have j: "j < allocated st" "j \<noteq> i" "k \<in> set (onDisposeKeys (heap st j))"
        by (simp_all add: dispose_fields split: if_splits)
      from invD2 [OF assms(1) j(1) j(3)] have e: "inputs st k = Some j" .
      then have "k \<noteq> key" using one(2) j(2) by auto
      then show "inputs (dispose st i) k = Some j" using e inp by simp
    qed
  qed
qed

lemma ext_dispose: "extends st (dispose st i)"
  by (simp add: extends_def dispose_fields)

lemma inv_dialog:
  "registry_inv h (st\<lparr>dialogRequests := d\<rparr>) = registry_inv h st"
  "registry_inv h (st\<lparr>telemetry := t\<rparr>) = registry_inv h st"
  "registry_inv h (st\<lparr>textFileCalls := c\<rparr>) = registry_inv h st"
  by (simp_all add: registry_inv_def)

lemma ext_dialog:
  "extends a (st\<lparr>dialogRequests := d\<rparr>) = extends a st"
  "extends a (st\<lparr>telemetry := t\<rparr>) = extends a st"
  "extends a (st\<lparr>textFileCalls := c\<rparr>) = extends a st"
  by (simp_all add: extends_def)

lemma suggest_snd: "snd (suggestFileName h st i) = snd (reloadModel st i)"
  by (auto simp: suggestFileName_def Let_def split: prod.splits sum.splits option.splits)

lemma inv_same:
  assumes "heap st' = heap st" "allocated st' = allocated st" "inputs st' = inputs st"
  shows "registry_inv h st' = registry_inv h st"
  unfolding registry_inv_def assms ..

lemma ext_same:
  assumes "heap st' = heap st" "allocated st' = allocated st"
  shows "extends a st' = extends a st"
  unfolding extends_def assms ..

lemma write_frame:
  "heap (snd (textFileService_write st u c opts written)) = heap st"
  "allocated (snd (textFileService_write st u c opts written)) = allocated st"
  "inputs (snd (textFileService_write st u c opts written)) = inputs st"
  by (simp_all add: textFileService_write_def Let_def)

lemma saveAs_frame:
  "heap (snd (textFileService_saveAs st u p opts c saved)) = heap st"
  "allocated (snd (textFileService_saveAs st u p opts c saved)) = allocated st"
  "inputs (snd (textFileService_saveAs st u p opts c saved)) = inputs st"
  by (simp_all add: textFileService_saveAs_def Let_def)

text \<open>The state of \<^verbatim>\<open>saveAs\<close> after a path was picked, step by step.\<close>

lemma saveAs_picked:
  assumes "suggestFileName h st i = (Inr suggested, st1)"
    and "st3 = st1\<lparr>dialogRequests := dialogRequests st1 @
                        [(suggested, (case opts of None \<Rightarrow> None
                                      | Some opt \<Rightarrow> availableFileSystems opt))],
                   telemetry := telemetry st1 @ [''searchEditor/saveSearchResults'']\<rparr>"
    and "textFileService_saveAs st3 (resource (heap st3 i)) p opts
           (case model (heap st3 i) of Inl e \<Rightarrow> [] | Inr m \<Rightarrow> createSnapshot m) saved = (ok, st4)"
    and "getOrMakeSearchEditorInput h (setDirty st4 i False)
           (WithUri p (Some (spreadConfig (this_query (heap (setDirty st4 i False) i))))) [] = (j, st6)"
  shows "snd (saveAs h st i g opts (Some p) saved) =
           (if ok then
              (if \<not> isEqual h p (resource (heap (setDirty st4 i False) i))
               then setHighlights st6 j (Some (highlights st6 i))
               else setDirty st4 i False)
            else st4)"
  using assms by (simp add: saveAs_def Let_def)

lemma inv_saveAs:
  assumes "registry_inv h st"
  shows "registry_inv h (snd (saveAs h st i g opts picked saved))"
proof -
  obtain r st1 where s: "suggestFileName h st i = (r, st1)"
    by (cases "suggestFileName h st i")
  have i1: "registry_inv h st1"
    using inv_reloadModel [OF assms, of i] suggest_snd [of h st i] s by simp
  show ?thesis
  proof (cases r)
    case (Inl e)
    then show ?thesis using s i1 by (simp add: saveAs_def)
  next
    case (Inr suggested)
    show ?thesis
    proof (cases picked)
      case None
      then show ?thesis using s i1 Inr by (simp add: saveAs_def Let_def inv_dialog)
    next
      case (Some p)
      define st3 where "st3 = st1\<lparr>dialogRequests := dialogRequests st1 @
                        [(suggested, (case opts of None \<Rightarrow> None
                                      | Some opt \<Rightarrow> availableFileSystems opt))],
                       telemetry := telemetry st1 @ [''searchEditor/saveSearchResults'']\<rparr>"
      obtain ok st4 where t: "textFileService_saveAs st3 (resource (heap st3 i)) p opts
           (case model (heap st3 i) of Inl e \<Rightarrow> [] | Inr m \<Rightarrow> createSnapshot m) saved = (ok, st4)"
        by (cases "textFileService_saveAs st3 (resource (heap st3 i)) p opts
           (case model (heap st3 i) of Inl e \<Rightarrow> [] | Inr m \<Rightarrow> createSnapshot m) saved")
      have f: "heap st4 = heap st1" "allocated st4 = allocated st1" "inputs st4 = inputs st1"
        using saveAs_frame [of st3 "resource (heap st3 i)" p opts
           "case model (heap st3 i) of Inl e \<Rightarrow> [] | Inr m \<Rightarrow> createSnapshot m" saved] t
        by (simp_all add: st3_def)
      have "registry_inv h st4 = registry_inv h st1"
        using f by (rule inv_same)
      then have i4: "registry_inv h st4" using i1 by simp
      have i5: "registry_inv h (setDirty st4 i False)" using i4 by (rule inv_setDirty)
      obtain j st6 where g: "getOrMakeSearchEditorInput h (setDirty st4 i False)
            (WithUri p (Some (spreadConfig (this_query (heap (setDirty st4 i False) i))))) [] = (j, st6)"
        by (cases "getOrMakeSearchEditorInput h (setDirty st4 i False)
            (WithUri p (Some (spreadConfig (this_query (heap (setDirty st4 i False) i))))) []")
      have i6: "registry_inv h st6" using getOrMake_snd_inv [OF i5 g] .
      have i7: "registry_inv h (setHighlights st6 j (Some (highlights st6 i)))"
        using i6 by (rule inv_setHighlights)
      have q: "suggestFileName h st i = (Inr suggested, st1)" using s Inr by simp
      show ?thesis
        unfolding Some saveAs_picked [OF q st3_def t g] using i4 i5 i7 by simp
    qed
  qed
qed

lemma ext_saveAs: "extends st (snd (saveAs h st i g opts picked saved))"
proof -
  obtain r st1 where s: "suggestFileName h st i = (r, st1)"
    by (cases "suggestFileName h st i")
  have e1: "extends st st1"
    using ext_reloadModel [of st i] suggest_snd [of h st i] s by simp
  show ?thesis
  proof (cases r)
    case (Inl e)
    then show ?thesis using s e1 by (simp add: saveAs_def)
  next
    case (Inr suggested)
    show ?thesis
    proof (cases picked)
      case None
      then show ?thesis using s e1 Inr by (simp add: saveAs_def Let_def ext_dialog)
    next
      case (Some p)
      define st3 where "st3 = st1\<lparr>dialogRequests := dialogRequests st1 @
                        [(suggested, (case opts of None \<Rightarrow> None
                                      | Some opt \<Rightarrow> availableFileSystems opt))],
                       telemetry := telemetry st1 @ [''searchEditor/saveSearchResults'']\<rparr>"
      obtain ok st4 where t: "textFileService_saveAs st3 (resource (heap st3 i)) p opts
           (case model (heap st3 i) of Inl e \<Rightarrow> [] | Inr m \<Rightarrow> createSnapshot m) saved = (ok, st4)"
        by (cases "textFileService_saveAs st3 (resource (heap st3 i)) p opts
           (case model (heap st3 i) of Inl e \<Rightarrow> [] | Inr m \<Rightarrow> createSnapshot m) saved")
      have f: "heap st4 = heap st1" "allocated st4 = allocated st1"
        using saveAs_frame [of st3 "resource (heap st3 i)" p opts
           "case model (heap st3 i) of Inl e \<Rightarrow> [] | Inr m \<Rightarrow> createSnapshot m" saved] t
        by (simp_all add: st3_def)
      have "extends st st4 = extends st st1"
        using f by (rule ext_same)
      then have e4: "extends st st4" using e1 by simp
      have e5: "extends st (setDirty st4 i False)"
        using e4 ext_setDirty by (rule extends_trans)
      obtain j st6 where g: "getOrMakeSearchEditorInput h (setDirty st4 i False)
            (WithUri p (Some (spreadConfig (this_query (heap (setDirty st4 i False) i))))) [] = (j, st6)"
        by (cases "getOrMakeSearchEditorInput h (setDirty st4 i False)
            (WithUri p (Some (spreadConfig (this_query (heap (setDirty st4 i False) i))))) []")
      have e6: "extends st st6" using e5 getOrMake_snd_ext [OF g] by (rule extends_trans)
      have e7: "extends st (setHighlights st6 j (Some (highlights st6 i)))"
        using e6 ext_setHighlights by (rule extends_trans)
      have q: "suggestFileName h st i = (Inr suggested, st1)" using s Inr by simp
      show ?thesis
        unfolding Some saveAs_picked [OF q st3_def t g] using e4 e5 e7 by simp
    qed
  qed
qed

lemma inv_write:
  "registry_inv h (snd (textFileService_write st u c opts written)) = registry_inv h st"
  by (rule inv_same) (rule write_frame)+

lemma ext_write: "extends st (snd (textFileService_write st u c opts written))"
proof -
  have "extends st (snd (textFileService_write st u c opts written)) = extends st st"
    by (rule ext_same) (rule write_frame)+
  then show ?thesis by (simp add: extends_refl)
qed

lemma save_titled:
  assumes "model (heap st i) = Inr m" and "\<not> isDisposed m" and "\<not> isUntitled st i"
    and "w = textFileService_write st (resource (heap st i)) (createSnapshot m) opts written"
  shows "save h st i g opts picked saved written =
           (if written then (Inr (Some i), setDirty (snd w) i False)
            else (Inl (FileWriteError (resource (heap st i))), snd w))"
  using assms by (simp add: save_def textFileService_write_def Let_def)

lemma inv_save:
  assumes "registry_inv h st"
  shows "registry_inv h (snd (save h st i g opts picked saved written))"
proof (cases "model (heap st i)")
  case (Inl e)
  then show ?thesis using assms by (simp add: save_def)
next
  case (Inr m)
  show ?thesis
  proof (cases "isDisposed m \<or> isUntitled st i")
    case True
    then show ?thesis using assms Inr by (auto simp: save_def inv_saveAs)
  next
    case False
    define w where "w = textFileService_write st (resource (heap st i)) (createSnapshot m) opts written"
    have iw: "registry_inv h (snd w)" using assms by (simp add: w_def inv_write)
    from False have "\<not> isDisposed m" "\<not> isUntitled st i" by simp_all
    from save_titled [OF Inr this w_def]
    show ?thesis using iw by (simp add: inv_setDirty)
  qed
qed

lemma ext_save: "extends st (snd (save h st i g opts picked saved written))"
proof (cases "model (heap st i)")
  case (Inl e)
  then show ?thesis by (simp add: save_def extends_refl)
next
  case (Inr m)
  show ?thesis
  proof (cases "isDisposed m \<or> isUntitled st i")
    case True
    then show ?thesis using Inr by (auto simp: save_def ext_saveAs extends_refl)
  next
    case False
    define w where "w = textFileService_write st (resource (heap st i)) (createSnapshot m) opts written"
    have ew: "extends st (snd w)" by (simp add: w_def ext_write)
    have ed: "extends st (setDirty (snd w) i False)"
      using ew ext_setDirty by (rule extends_trans)
    from False have "\<not> isDisposed m" "\<not> isUntitled st i" by simp_all
    from save_titled [OF Inr this w_def]
    show ?thesis using ew ed by simp
  qed
qed

lemma inv_perform:
  assumes "registry_inv h st" and "\<And>i. target op = Some i \<Longrightarrow> i < allocated st"
  shows "registry_inv h (perform h st op)"
proof (cases op)
  case (HostChange tm bk fl mode)
  have "registry_inv h (st\<lparr>textModels := tm, backups := bk, files := fl, autoSaveMode := mode\<rparr>)
        = registry_inv h st"
    by (rule inv_same) simp_all
  then show ?thesis using assms(1) HostChange by simp
qed (use assms in \<open>simp_all add: inv_getOrMake inv_construct inv_dispose inv_save inv_saveAs
      inv_revert inv_setDirty inv_reloadModel inv_setConfig inv_setHighlights\<close>)

lemma ext_perform: "extends st (perform h st op)"
proof (cases op)
  case (HostChange tm bk fl mode)
  have "extends st (st\<lparr>textModels := tm, backups := bk, files := fl, autoSaveMode := mode\<rparr>)
        = extends st st"
    by (rule ext_same) simp_all
  then show ?thesis using HostChange by (simp add: extends_refl)
qed (simp_all add: ext_getOrMake ext_construct ext_dispose ext_save ext_saveAs ext_revert
      ext_setDirty ext_reloadModel ext_setConfig ext_setHighlights)

lemma inv_exec:
  assumes "registry_inv h st"
  shows "registry_inv h (exec h st op)"
proof (cases "target op")
  case None
  then have "registry_inv h (perform h st op)" using assms by (intro inv_perform) simp_all
  then show ?thesis using None by (simp add: exec_def)
next
  case (Some i)
  show ?thesis
  proof (cases "i < allocated st")
    case True
    then have "registry_inv h (perform h st op)" using assms Some by (intro inv_perform) simp_all
    then show ?thesis using Some True by (simp add: exec_def)
  next
    case False
    then show ?thesis using Some assms by (simp add: exec_def)
  qed
qed

lemma ext_exec: "extends st (exec h st op)"
  by (auto simp: exec_def ext_perform extends_refl split: option.splits)

lemma inv_run: "registry_inv h st \<Longrightarrow> registry_inv h (run h st ops)"
  unfolding run_def by (induction ops arbitrary: st) (simp_all add: inv_exec)

lemma ext_run: "extends st (run h st ops)"
  unfolding run_def
proof (induction ops arbitrary: st)
  case Nil
  show ?case by (simp add: extends_refl)
next
  case (Cons op ops)
  show ?case using extends_trans [OF ext_exec Cons.IH] by simp
qed

lemma inv_initial: "initial st \<Longrightarrow> registry_inv h st"
  by (simp add: initial_def registry_inv_def)

lemma inv_reachable: "reachable h st \<Longrightarrow> registry_inv h st"
  by (auto simp: reachable_def inv_initial inv_run)

lemma extendsD:
  assumes "extends a b" and "j < allocated a"
  shows "j < allocated b \<and> resource (heap b j) = resource (heap a j)
         \<and> (disposed (heap b j) \<or> onDisposeKeys (heap b j) = onDisposeKeys (heap a j))"
proof -
  have "allocated a \<le> allocated b" using assms(1) unfolding extends_def by blast
  moreover have "resource (heap b j) = resource (heap a j)
         \<and> (disposed (heap b j) \<or> onDisposeKeys (heap b j) = onDisposeKeys (heap a j))"
    using assms unfolding extends_def by blast
  ultimately show ?thesis using assms(2) by simp
qed

lemma contents_fromRaw: "createSnapshot (SearchEditorModel_fromRaw h x) = x"
  by (simp add: createSnapshot_def SearchEditorModel_fromRaw_def)

subsection \<open>An input made for a fresh uri\<close>

lemma scheme_URI_from_SearchEditor:
  "scheme (URI_from SearchEditorScheme p f) = SearchEditorScheme"
  by (simp add: URI_from_def schemeFix_def SearchEditorScheme_def)

lemma getOrMake_fresh_config:
  assumes "inputs st (uriToString h (URI_from SearchEditorScheme [] rnd)) = None"
  shows "getConfigSync (snd (getOrMakeSearchEditorInput h st (WithText t) rnd))
                       (fst (getOrMakeSearchEditorInput h st (WithText t) rnd))
         = Some (if t \<noteq> [] then extractSearchQuery h t else emptyConfig)"
  using assms
  by (simp add: getOrMakeSearchEditorInput_def newSearchEditorInput_def Let_def
        getConfigSync_def truthyText_def split: prod.splits)

lemma getOrMake_fresh_contents:
  assumes "inputs st (uriToString h (URI_from SearchEditorScheme [] rnd)) = None"
    and "textModels st (URI_from SearchEditorScheme [] rnd) = None"
    and "backups st (URI_from SearchEditorScheme [] rnd) = None"
  shows "resolvedContents
           (model (heap (snd (getOrMakeSearchEditorInput h st (WithConfig c) rnd))
                        (fst (getOrMakeSearchEditorInput h st (WithConfig c) rnd))))
         = Inr (serializeSearchConfiguration h c)"
  using assms
  by (simp add: getOrMakeSearchEditorInput_def newSearchEditorInput_def Let_def getModel_def
        truthyText_def resolvedContents_def contents_fromRaw scheme_URI_from_SearchEditor
      split: prod.splits)

subsection \<open>Evaluating the examples\<close>

subsection \<open>Evaluating the examples\<close>

lemmas example_defs = exampleHost_def blankInput_def emptyWorld_def exampleUntitled_def
  exampleFile_def exampleRemote_def exampleConfig_def exampleDecoration_def URI_from_def
  schemeFix_def referenceResolution_def
  SearchEditorScheme_def Schemas_file_def Schemas_vscodeRemote_def emptyConfig_def

lemmas method_defs = getOrMakeSearchEditorInput_def newSearchEditorInput_def getModel_def
  truthyText_def SearchEditorModel_fromRaw_def SearchEditorModel_fromTextModel_def
  getResource_def isUntitled_def isDirty_def getConfigSync_def updInput_def setDirty_def
  reloadModel_def setConfig_def setHighlights_def dispose_def EditorInput_dispose_def
  revert_def EditorInput_revert_def exec_def run_def Let_def

lemmas save_defs = save_def saveAs_def suggestFileName_def textFileService_write_def
  textFileService_saveAs_def
  createSnapshot_def isDisposed_def spreadConfig_def highlights_def getAllDecorations_def
  deltaDecorations_def resolvedContents_def

lemma reachable_emptyWorld: "reachable h emptyWorld"
proof -
  have "initial emptyWorld" by (simp add: initial_def emptyWorld_def)
  moreover have "emptyWorld = run h emptyWorld []" by (simp add: run_def)
  ultimately show ?thesis unfolding reachable_def by blast
qed

lemma reachable_run: "reachable h st \<Longrightarrow> reachable h (run h st ops)"
proof -
  assume "reachable h st"
  then obtain st0 ops0 where a: "initial st0" "st = run h st0 ops0"
    unfolding reachable_def by blast
  then have "run h st ops = run h st0 (ops0 @ ops)" by (simp add: run_def)
  with a(1) show ?thesis unfolding reachable_def by blast
qed

lemma example_first:
  "getOrMakeSearchEditorInput exampleHost emptyWorld (WithUri exampleUntitled None) [] =
     (0, snd (getOrMakeSearchEditorInput exampleHost emptyWorld (WithUri exampleUntitled None) []))"
  by (simp add: method_defs example_defs)

section \<open>The claims\<close>

text \<open>
  C1. If \<^verbatim>\<open>getOrMakeSearchEditorInput\<close> was called with a uri and the input it
  returned has not been disposed, then every later call with the same uri, after any
  calls in between and with any configuration, returns the identical input and changes
  nothing. The registry memoizes on the string of the uri: the input returned is an
  existing object whose resource has the string of the uri, it is registered under that
  string from the first call on, and a later call with any uri of the same string
  returns it.
\<close>

theorem getOrMake_memoizes:
  assumes "reachable h st"
    and "getOrMakeSearchEditorInput h st (WithUri u c) rnd = (i, st1)"
    and "\<not> disposed (heap (run h st1 ops) i)"
  shows "i < allocated st1
       \<and> uriToString h (resource (heap st1 i)) = uriToString h u
       \<and> inputs st1 (uriToString h u) = Some i
       \<and> inputs (run h st1 ops) (uriToString h u) = Some i
       \<and> fst (getOrMakeSearchEditorInput h (run h st1 ops) (WithUri u c') rnd') = i
       \<and> (\<forall>u' c' rnd'. uriToString h u' = uriToString h u \<longrightarrow>
             getOrMakeSearchEditorInput h (run h st1 ops) (WithUri u' c') rnd'
               = (i, run h st1 ops))"
proof -
  have i0: "registry_inv h st" using assms(1) by (rule inv_reachable)
  have i1: "registry_inv h st1" using i0 assms(2) by (rule getOrMake_snd_inv)
  from getOrMake_result [OF i0 assms(2)]
  have r: "i < allocated st1" "onDisposeKeys (heap st1 i) = [uriToString h u]"
    by simp_all
  from r(2) have "uriToString h u \<in> set (onDisposeKeys (heap st1 i))" by simp
  from invD2 [OF i1 r(1) this]
  have reg1: "inputs st1 (uriToString h u) = Some i" .
  from invD1 [OF i1 reg1]
  have res1: "uriToString h (resource (heap st1 i)) = uriToString h u" by simp
  define st2 where "st2 = run h st1 ops"
  have i2: "registry_inv h st2" unfolding st2_def using i1 by (rule inv_run)
  have e: "extends st1 st2" unfolding st2_def by (rule ext_run)
  have nd: "\<not> disposed (heap st2 i)" using assms(3) by (simp add: st2_def)
  from extendsD [OF e r(1)] nd r(2)
  have lt: "i < allocated st2" and keys: "onDisposeKeys (heap st2 i) = [uriToString h u]"
    by simp_all
  from keys have "uriToString h u \<in> set (onDisposeKeys (heap st2 i))" by simp
  from invD2 [OF i2 lt this]
  have reg2: "inputs st2 (uriToString h u) = Some i" .
  have again: "getOrMakeSearchEditorInput h st2 (WithUri u' c'') rnd'' = (i, st2)"
    if "uriToString h u' = uriToString h u" for u' c'' rnd''
    using reg2 that by (simp add: getOrMakeSearchEditorInput_def)
  have "fst (getOrMakeSearchEditorInput h st2 (WithUri u c') rnd') = i"
    using again [of u c' rnd'] by simp
  then show ?thesis
    using r(1) res1 reg1 reg2 again unfolding st2_def by blast
qed

theorem getOrMake_memoizes_witness:
  "getOrMakeSearchEditorInput exampleHost
     (run exampleHost
        (snd (getOrMakeSearchEditorInput exampleHost emptyWorld (WithUri exampleUntitled None) []))
        [SetDirty 0 True, Construct exampleUntitled (Inl NoInitialContents) None, Dispose 1,
         GetOrMake (WithText ''q'') ''0.7'', Dispose 2])
     (WithUri (exampleUntitled\<lparr>authority := ''elsewhere''\<rparr>) (Some emptyConfig)) []
   = (0, run exampleHost
        (snd (getOrMakeSearchEditorInput exampleHost emptyWorld (WithUri exampleUntitled None) []))
        [SetDirty 0 True, Construct exampleUntitled (Inl NoInitialContents) None, Dispose 1,
         GetOrMake (WithText ''q'') ''0.7'', Dispose 2])
   \<and> inputs (snd (getOrMakeSearchEditorInput exampleHost emptyWorld (WithUri exampleUntitled None) []))
        ''search-editor:#0.5'' = Some 0"
proof -
  have nd: "\<not> disposed (heap (run exampleHost
            (snd (getOrMakeSearchEditorInput exampleHost emptyWorld (WithUri exampleUntitled None) []))
            [SetDirty 0 True, Construct exampleUntitled (Inl NoInitialContents) None, Dispose 1,
             GetOrMake (WithText ''q'') ''0.7'', Dispose 2]) 0)"
    by (simp add: method_defs example_defs)
  have k: "uriToString exampleHost (exampleUntitled\<lparr>authority := ''elsewhere''\<rparr>)
             = uriToString exampleHost exampleUntitled"
    "uriToString exampleHost exampleUntitled = ''search-editor:#0.5''"
    by (simp_all add: example_defs)
  from getOrMake_memoizes [OF reachable_emptyWorld example_first nd] k
  show ?thesis by simp
qed

text \<open>
  C7. In every reachable state each entry of the registry is stored under the string of
  its input's uri and names an input that is not disposed; disposing an input leaves no
  entry for it; and the input \<^verbatim>\<open>getOrMakeSearchEditorInput\<close> returns is not
  disposed.
\<close>

theorem registry_holds_open_inputs:
  assumes "reachable h st"
  shows "(\<forall>k i. inputs st k = Some i \<longrightarrow>
            uriToString h (resource (heap st i)) = k \<and> \<not> disposed (heap st i))
       \<and> (\<forall>i k. i < allocated st \<longrightarrow> inputs (dispose st i) k \<noteq> Some i)
       \<and> (\<forall>ed rnd. \<not> disposed (heap (snd (getOrMakeSearchEditorInput h st ed rnd))
                                   (fst (getOrMakeSearchEditorInput h st ed rnd))))"
proof (intro conjI allI impI)
  have i0: "registry_inv h st" using assms by (rule inv_reachable)
  fix k i assume "inputs st k = Some i"
  from invD1 [OF i0 this]
  show "uriToString h (resource (heap st i)) = k" "\<not> disposed (heap st i)" by simp_all
next
  have i0: "registry_inv h st" using assms by (rule inv_reachable)
  fix i k assume lt: "i < allocated st"
  have d: "registry_inv h (dispose st i)" using i0 lt by (rule inv_dispose)
  show "inputs (dispose st i) k \<noteq> Some i"
  proof
    assume "inputs (dispose st i) k = Some i"
    from invD1 [OF d this] show False by (simp add: dispose_fields)
  qed
next
  have i0: "registry_inv h st" using assms by (rule inv_reachable)
  fix ed rnd
  obtain i st' where g: "getOrMakeSearchEditorInput h st ed rnd = (i, st')"
    by (cases "getOrMakeSearchEditorInput h st ed rnd")
  from getOrMake_result [OF i0 g] g
  show "\<not> disposed (heap (snd (getOrMakeSearchEditorInput h st ed rnd))
                          (fst (getOrMakeSearchEditorInput h st ed rnd)))" by simp
qed

theorem registry_holds_open_inputs_witness:
  "inputs (run exampleHost emptyWorld
             [GetOrMake (WithUri exampleUntitled None) [], GetOrMake (WithText ''q'') ''0.7''])
          ''search-editor:#0.5'' = Some 0
   \<and> inputs (dispose (run exampleHost emptyWorld
             [GetOrMake (WithUri exampleUntitled None) [], GetOrMake (WithText ''q'') ''0.7'']) 0)
          ''search-editor:#0.5'' \<noteq> Some 0
   \<and> \<not> disposed (heap (run exampleHost emptyWorld
             [GetOrMake (WithUri exampleUntitled None) [], GetOrMake (WithText ''q'') ''0.7'']) 0)"
proof -
  define st where "st = run exampleHost emptyWorld
             [GetOrMake (WithUri exampleUntitled None) [], GetOrMake (WithText ''q'') ''0.7'']"
  have r: "reachable exampleHost st"
    unfolding st_def by (rule reachable_run [OF reachable_emptyWorld])
  have a: "inputs st ''search-editor:#0.5'' = Some 0" "0 < allocated st"
    by (simp_all add: st_def method_defs example_defs)
  show ?thesis
    using registry_holds_open_inputs [OF r] a
    unfolding st_def [symmetric] by blast
qed

text \<open>
  C8. \<^verbatim>\<open>isSaving\<close> answers true exactly when the input is dirty, is not
  untitled, and the auto save mode is \<^verbatim>\<open>AFTER_SHORT_DELAY\<close>; so a saving input
  is dirty, and an untitled input is never saving.
\<close>

theorem isSaving_only_when:
  "isSaving st i = (isDirty st i \<and> \<not> isUntitled st i \<and> autoSaveMode st = AFTER_SHORT_DELAY)
   \<and> (isSaving st i \<longrightarrow> isDirty st i)
   \<and> (isUntitled st i \<longrightarrow> \<not> isSaving st i)"
  by (simp add: isSaving_def)

theorem isSaving_only_when_witness:
  "isSaving (setDirty (snd (getOrMakeSearchEditorInput exampleHost
               (emptyWorld\<lparr>files := [exampleFile \<mapsto> ''body''], autoSaveMode := AFTER_SHORT_DELAY\<rparr>)
               (WithUri exampleFile None) [])) 0 True) 0"
  using isSaving_only_when [of "setDirty (snd (getOrMakeSearchEditorInput exampleHost
               (emptyWorld\<lparr>files := [exampleFile \<mapsto> ''body''], autoSaveMode := AFTER_SHORT_DELAY\<rparr>)
               (WithUri exampleFile None) [])) 0 True" 0]
  by (simp add: method_defs example_defs)

text \<open>
  C9. For an untitled input and the default maximal length 12: a query that does not trim
  to the empty string gives the title with the label \<open>trimToMax 12\<close> of the trimmed
  query, which has at most 12 characters, is the trimmed query when that is shorter than
  12, and otherwise its first 9 characters and three dots; a query that is absent or
  trims to the empty string gives the plain title.
\<close>

theorem getName_default_label:
  assumes "isUntitled st i"
  shows "(\<forall>c q. this_query (heap st i) = Some c \<and> query c = Some q \<and> trim q \<noteq> [] \<longrightarrow>
            getName h st i None =
              localize h ''searchTitle.withQuery'' ''Search: {0}'' [trimToMax 12 (trim q)]
            \<and> length (trimToMax 12 (trim q)) \<le> 12
            \<and> (length (trim q) < 12 \<longrightarrow> trimToMax 12 (trim q) = trim q)
            \<and> (12 \<le> length (trim q) \<longrightarrow> trimToMax 12 (trim q) = take 9 (trim q) @ ''...''))
       \<and> ((this_query (heap st i) = None
            \<or> (\<exists>c. this_query (heap st i) = Some c
                 \<and> (query c = None \<or> (\<exists>q. query c = Some q \<and> trim q = [])))) \<longrightarrow>
            getName h st i None = localize h ''searchTitle'' ''Search'' [])"
  using assms
  by (auto simp: getName_def length_trimToMax_12 trimToMax_short trimToMax_long)

theorem getName_default_label_witness:
  "getName exampleHost
     (snd (getOrMakeSearchEditorInput exampleHost emptyWorld (WithConfig exampleConfig) ''0.5'')) 0 None
   = ''Search: a very lo...''"
proof -
  have u: "isUntitled (snd (getOrMakeSearchEditorInput exampleHost emptyWorld
                              (WithConfig exampleConfig) ''0.5'')) 0"
    by (simp add: method_defs example_defs)
  have t: "trim ''  a very long search query '' = ''a very long search query''"
    by (simp add: trim_def isWhiteSpace_def)
  show ?thesis
    using getName_default_label [OF u, of exampleHost] t
    by (simp add: method_defs example_defs trimToMax_def slice0_def)
qed

text \<open>
  C10. Every input matches itself, \<^verbatim>\<open>matches\<close> is symmetric on inputs, no other
  value matches, and two distinct inputs match exactly when their resources have equal
  paths that are not empty or equal fragments that are not empty.
\<close>

theorem matches_relation:
  "matches st i (InputRef i)
   \<and> matches st i (InputRef j) = matches st j (InputRef i)
   \<and> \<not> matches st i OtherValue
   \<and> (i \<noteq> j \<longrightarrow>
        matches st i (InputRef j) =
          ((path (resource (heap st i)) \<noteq> [] \<and>
            path (resource (heap st i)) = path (resource (heap st j))) \<or>
           (fragment (resource (heap st i)) \<noteq> [] \<and>
            fragment (resource (heap st i)) = fragment (resource (heap st j)))))"
  by (auto simp: matches_def)

theorem matches_relation_witness:
  "matches (run exampleHost emptyWorld
              [GetOrMake (WithUri exampleFile None) [], GetOrMake (WithUri exampleRemote None) []])
           0 (InputRef 1)
   \<and> matches (run exampleHost emptyWorld
              [GetOrMake (WithUri exampleFile None) [], GetOrMake (WithUri exampleRemote None) []])
           1 (InputRef 0)"
  using matches_relation [of "run exampleHost emptyWorld
              [GetOrMake (WithUri exampleFile None) [], GetOrMake (WithUri exampleRemote None) []]" 0 1]
  by (simp add: method_defs example_defs matches_def)




text \<open>
  C3. The constructor registers one working copy on top of what the call of
  \<^verbatim>\<open>getModel\<close> left: its resource is the input's, it has the capability
  \<^verbatim>\<open>Untitled\<close> exactly when the input is untitled, and in every state its name,
  its dirty flag, its backup, its save and its revert are the input's.
\<close>

theorem constructor_registers_working_copy:
  assumes "newSearchEditorInput st uri gm cfg = (i, st')"
  shows "\<exists>wc. workingCopies st' = workingCopies (snd (gm st)) @ [wc]
        \<and> wc_resource wc = getResource st' i
        \<and> (Untitled \<in> wc_capabilities wc) = isUntitled st' i
        \<and> (\<forall>s. wc_name h s wc = getName h s i None
              \<and> wc_isDirty s wc = isDirty s i
              \<and> wc_backup s wc = backup s i
              \<and> (\<forall>opts picked saved written.
                    wc_save h s wc opts picked saved written =
                      (case save h s i 0 opts picked saved written of
                         (r, s') \<Rightarrow> (map_sum id (\<lambda>editor. editor \<noteq> None) r, s')))
              \<and> (\<forall>opts. wc_revert s wc opts = revert s i 0 opts))"
  using assms
  by (auto simp: newSearchEditorInput_def Let_def wc_name_def wc_isDirty_def wc_backup_def
        wc_save_def wc_revert_def getResource_def isUntitled_def
      split: prod.splits sum.splits)

theorem constructor_registers_working_copy_witness:
  "\<exists>wc. workingCopies (snd (newSearchEditorInput emptyWorld exampleUntitled
                    (getModel exampleHost exampleUntitled (WithConfig exampleConfig) exampleConfig)
                    (Some exampleConfig))) = [wc]
        \<and> wc_resource wc = exampleUntitled
        \<and> Untitled \<in> wc_capabilities wc
        \<and> wc_name exampleHost (snd (newSearchEditorInput emptyWorld exampleUntitled
                    (getModel exampleHost exampleUntitled (WithConfig exampleConfig) exampleConfig)
                    (Some exampleConfig))) wc = ''Search: a very lo...''"
proof -
  have n: "newSearchEditorInput emptyWorld exampleUntitled
             (getModel exampleHost exampleUntitled (WithConfig exampleConfig) exampleConfig)
             (Some exampleConfig)
           = (0, snd (newSearchEditorInput emptyWorld exampleUntitled
                (getModel exampleHost exampleUntitled (WithConfig exampleConfig) exampleConfig)
                (Some exampleConfig)))"
    by (simp add: method_defs example_defs)
  have t: "trim ''  a very long search query '' = ''a very long search query''"
    by (simp add: trim_def isWhiteSpace_def)
  from constructor_registers_working_copy [OF n, of exampleHost]
  obtain wc where w: "workingCopies (snd (newSearchEditorInput emptyWorld exampleUntitled
                (getModel exampleHost exampleUntitled (WithConfig exampleConfig) exampleConfig)
                (Some exampleConfig)))
        = workingCopies (snd (getModel exampleHost exampleUntitled (WithConfig exampleConfig)
                                exampleConfig emptyWorld)) @ [wc]"
     "wc_resource wc = getResource (snd (newSearchEditorInput emptyWorld exampleUntitled
                (getModel exampleHost exampleUntitled (WithConfig exampleConfig) exampleConfig)
                (Some exampleConfig))) 0"
     "(Untitled \<in> wc_capabilities wc) = isUntitled (snd (newSearchEditorInput emptyWorld exampleUntitled
                (getModel exampleHost exampleUntitled (WithConfig exampleConfig) exampleConfig)
                (Some exampleConfig))) 0"
     "\<And>s. wc_name exampleHost s wc = getName exampleHost s 0 None"
    by blast
  have "workingCopies (snd (newSearchEditorInput emptyWorld exampleUntitled
                    (getModel exampleHost exampleUntitled (WithConfig exampleConfig) exampleConfig)
                    (Some exampleConfig))) = [wc]"
    using w(1) by (simp add: method_defs example_defs)
  moreover have "wc_resource wc = exampleUntitled"
    using w(2) by (simp add: method_defs example_defs)
  moreover have "Untitled \<in> wc_capabilities wc"
    using w(3) by (simp add: method_defs example_defs)
  moreover have "wc_name exampleHost (snd (newSearchEditorInput emptyWorld exampleUntitled
                    (getModel exampleHost exampleUntitled (WithConfig exampleConfig) exampleConfig)
                    (Some exampleConfig))) wc = ''Search: a very lo...''"
    using w(4) t by (simp add: method_defs example_defs getName_def trimToMax_def slice0_def)
  ultimately show ?thesis by blast
qed

text \<open>
  C4, as the code has it. When no input is registered under the uri made for the call:
  a text that is not empty gives the starting configuration
  \<^verbatim>\<open>extractSearchQuery(text)\<close>, the empty text gives \<^verbatim>\<open>{}\<close>; and a
  configuration alone, with no text model and no backup for that uri, gives the contents
  \<^verbatim>\<open>serializeSearchConfiguration(config)\<close>. When an input is registered under
  that uri, it is returned as it is, whatever the text or the configuration.
\<close>

theorem getOrMake_config_and_contents:
  "(inputs st (uriToString h (URI_from SearchEditorScheme [] rnd)) = None \<longrightarrow>
      (t \<noteq> [] \<longrightarrow>
         getConfigSync (snd (getOrMakeSearchEditorInput h st (WithText t) rnd))
                       (fst (getOrMakeSearchEditorInput h st (WithText t) rnd))
           = Some (extractSearchQuery h t))
      \<and> (t = [] \<longrightarrow>
         getConfigSync (snd (getOrMakeSearchEditorInput h st (WithText t) rnd))
                       (fst (getOrMakeSearchEditorInput h st (WithText t) rnd))
           = Some emptyConfig)
      \<and> (textModels st (URI_from SearchEditorScheme [] rnd) = None
          \<and> backups st (URI_from SearchEditorScheme [] rnd) = None \<longrightarrow>
            resolvedContents
              (model (heap (snd (getOrMakeSearchEditorInput h st (WithConfig c) rnd))
                           (fst (getOrMakeSearchEditorInput h st (WithConfig c) rnd))))
              = Inr (serializeSearchConfiguration h c)))
   \<and> (\<forall>e. inputs st (uriToString h (URI_from SearchEditorScheme [] rnd)) = Some e \<longrightarrow>
          getOrMakeSearchEditorInput h st (WithText t) rnd = (e, st)
          \<and> getOrMakeSearchEditorInput h st (WithConfig c) rnd = (e, st))"
proof (intro conjI impI allI)
  assume a: "inputs st (uriToString h (URI_from SearchEditorScheme [] rnd)) = None"
  {
    assume "t \<noteq> []"
    then show "getConfigSync (snd (getOrMakeSearchEditorInput h st (WithText t) rnd))
                       (fst (getOrMakeSearchEditorInput h st (WithText t) rnd))
           = Some (extractSearchQuery h t)"
      using getOrMake_fresh_config [OF a, of t] by simp
  }
  {
    assume "t = []"
    then show "getConfigSync (snd (getOrMakeSearchEditorInput h st (WithText t) rnd))
                       (fst (getOrMakeSearchEditorInput h st (WithText t) rnd))
           = Some emptyConfig"
      using getOrMake_fresh_config [OF a, of t] by simp
  }
  {
    assume "textModels st (URI_from SearchEditorScheme [] rnd) = None
          \<and> backups st (URI_from SearchEditorScheme [] rnd) = None"
    then show "resolvedContents
              (model (heap (snd (getOrMakeSearchEditorInput h st (WithConfig c) rnd))
                           (fst (getOrMakeSearchEditorInput h st (WithConfig c) rnd))))
              = Inr (serializeSearchConfiguration h c)"
      using getOrMake_fresh_contents [OF a, of c] by simp
  }
next
  fix e assume "inputs st (uriToString h (URI_from SearchEditorScheme [] rnd)) = Some e"
  then show "getOrMakeSearchEditorInput h st (WithText t) rnd = (e, st)"
    "getOrMakeSearchEditorInput h st (WithConfig c) rnd = (e, st)"
    by (simp_all add: getOrMakeSearchEditorInput_def)
qed

theorem getOrMake_config_and_contents_witness:
  "getConfigSync (snd (getOrMakeSearchEditorInput exampleHost emptyWorld (WithText ''foo'') ''0.5'')) 0
     = Some \<lparr>query = Some ''foo'', otherFields = []\<rparr>
   \<and> getConfigSync (snd (getOrMakeSearchEditorInput exampleHost emptyWorld (WithText []) ''0.5'')) 0
     = Some emptyConfig
   \<and> resolvedContents
        (model (heap (snd (getOrMakeSearchEditorInput exampleHost emptyWorld
                             (WithConfig \<lparr>query = Some ''foo'', otherFields = []\<rparr>) ''0.5'')) 0))
     = Inr ''# Query: foo''
   \<and> getOrMakeSearchEditorInput exampleHost
        (snd (getOrMakeSearchEditorInput exampleHost emptyWorld (WithText ''foo'') ''0.5''))
        (WithText ''bar'') ''0.5''
     = (0, snd (getOrMakeSearchEditorInput exampleHost emptyWorld (WithText ''foo'') ''0.5''))"
proof -
  have a: "inputs emptyWorld (uriToString exampleHost (URI_from SearchEditorScheme [] ''0.5'')) = None"
    by (simp add: emptyWorld_def)
  have f: "fst (getOrMakeSearchEditorInput exampleHost emptyWorld (WithText ''foo'') ''0.5'') = 0"
    "fst (getOrMakeSearchEditorInput exampleHost emptyWorld (WithText []) ''0.5'') = 0"
    "fst (getOrMakeSearchEditorInput exampleHost emptyWorld
            (WithConfig \<lparr>query = Some ''foo'', otherFields = []\<rparr>) ''0.5'') = 0"
    by (simp_all add: method_defs example_defs)
  have e: "extractSearchQuery exampleHost ''foo'' = \<lparr>query = Some ''foo'', otherFields = []\<rparr>"
    "serializeSearchConfiguration exampleHost \<lparr>query = Some ''foo'', otherFields = []\<rparr> = ''# Query: foo''"
    "textModels emptyWorld (URI_from SearchEditorScheme [] ''0.5'') = None"
    "backups emptyWorld (URI_from SearchEditorScheme [] ''0.5'') = None"
    by (simp_all add: example_defs)
  have b: "inputs (snd (getOrMakeSearchEditorInput exampleHost emptyWorld (WithText ''foo'') ''0.5''))
             (uriToString exampleHost (URI_from SearchEditorScheme [] ''0.5'')) = Some 0"
    by (simp add: method_defs example_defs)
  have one: "getConfigSync (snd (getOrMakeSearchEditorInput exampleHost emptyWorld (WithText ''foo'') ''0.5'')) 0
     = Some \<lparr>query = Some ''foo'', otherFields = []\<rparr>"
    using getOrMake_config_and_contents [of emptyWorld exampleHost "''0.5''" "''foo''"] a f e by simp
  have two: "getConfigSync (snd (getOrMakeSearchEditorInput exampleHost emptyWorld (WithText []) ''0.5'')) 0
     = Some emptyConfig"
    using getOrMake_config_and_contents [of emptyWorld exampleHost "''0.5''" "[]"] a f by simp
  have three: "resolvedContents
        (model (heap (snd (getOrMakeSearchEditorInput exampleHost emptyWorld
                             (WithConfig \<lparr>query = Some ''foo'', otherFields = []\<rparr>) ''0.5'')) 0))
     = Inr ''# Query: foo''"
    using getOrMake_config_and_contents [of emptyWorld exampleHost "''0.5''" "''foo''"
        "\<lparr>query = Some ''foo'', otherFields = []\<rparr>"] a f e by simp
  have four: "getOrMakeSearchEditorInput exampleHost
        (snd (getOrMakeSearchEditorInput exampleHost emptyWorld (WithText ''foo'') ''0.5''))
        (WithText ''bar'') ''0.5''
     = (0, snd (getOrMakeSearchEditorInput exampleHost emptyWorld (WithText ''foo'') ''0.5''))"
    using getOrMake_config_and_contents
        [of "snd (getOrMakeSearchEditorInput exampleHost emptyWorld (WithText ''foo'') ''0.5'')"
            exampleHost "''0.5''" "''bar''"] b
    by simp
  from one two three four show ?thesis by simp
qed

text \<open>
  The claim as it was written fails in two ways: on the empty text, and when the uri made
  for the call is taken (the same random number twice).
\<close>

theorem getOrMake_config_counterexample:
  "getConfigSync (snd (getOrMakeSearchEditorInput exampleHost emptyWorld (WithText []) ''0.5''))
                 (fst (getOrMakeSearchEditorInput exampleHost emptyWorld (WithText []) ''0.5''))
     = Some emptyConfig
   \<and> extractSearchQuery exampleHost [] \<noteq> emptyConfig
   \<and> getConfigSync
        (snd (getOrMakeSearchEditorInput exampleHost
               (snd (getOrMakeSearchEditorInput exampleHost emptyWorld (WithText ''foo'') ''0.5''))
               (WithText ''bar'') ''0.5''))
        (fst (getOrMakeSearchEditorInput exampleHost
               (snd (getOrMakeSearchEditorInput exampleHost emptyWorld (WithText ''foo'') ''0.5''))
               (WithText ''bar'') ''0.5''))
     = Some (extractSearchQuery exampleHost ''foo'')
   \<and> extractSearchQuery exampleHost ''foo'' \<noteq> extractSearchQuery exampleHost ''bar''
   \<and> textModels (snd (getOrMakeSearchEditorInput exampleHost emptyWorld (WithText ''foo'') ''0.5''))
        (URI_from SearchEditorScheme [] ''0.5'') = None
   \<and> backups (snd (getOrMakeSearchEditorInput exampleHost emptyWorld (WithText ''foo'') ''0.5''))
        (URI_from SearchEditorScheme [] ''0.5'') = None
   \<and> resolvedContents
        (model (heap
          (snd (getOrMakeSearchEditorInput exampleHost
                 (snd (getOrMakeSearchEditorInput exampleHost emptyWorld (WithText ''foo'') ''0.5''))
                 (WithConfig exampleConfig) ''0.5''))
          (fst (getOrMakeSearchEditorInput exampleHost
                 (snd (getOrMakeSearchEditorInput exampleHost emptyWorld (WithText ''foo'') ''0.5''))
                 (WithConfig exampleConfig) ''0.5''))))
     = Inr ''foo''
   \<and> serializeSearchConfiguration exampleHost exampleConfig \<noteq> ''foo''"
  by (simp add: method_defs example_defs resolvedContents_def createSnapshot_def)

text \<open>
  C5, as the code has it. When the model is there and not disposed,
  \<^verbatim>\<open>save\<close> of an untitled input is \<^verbatim>\<open>saveAs\<close>; of any other input it
  writes the snapshot of the model to the resource through the text file service. When
  the write succeeds, the file has the snapshot, the input is left not dirty and the
  answer is the input itself. When the write rejects, \<^verbatim>\<open>save\<close> rejects with
  it and the dirty flag, like the whole input, is as it was.
\<close>

theorem save_behaviour:
  assumes "model (heap st i) = Inr m" and "\<not> isDisposed m"
  shows "(isUntitled st i \<longrightarrow>
            save h st i g opts picked saved written = saveAs h st i g opts picked saved)
       \<and> (\<not> isUntitled st i \<longrightarrow>
            textFileCalls (snd (save h st i g opts picked saved written)) =
                textFileCalls st @ [WriteCall (getResource st i) (createSnapshot m) opts])
       \<and> (\<not> isUntitled st i \<and> written \<longrightarrow>
            fst (save h st i g opts picked saved written) = Inr (Some i)
            \<and> \<not> isDirty (snd (save h st i g opts picked saved written)) i
            \<and> files (snd (save h st i g opts picked saved written)) (getResource st i) =
                Some (createSnapshot m))
       \<and> (\<not> isUntitled st i \<and> \<not> written \<longrightarrow>
            fst (save h st i g opts picked saved written) = Inl (FileWriteError (getResource st i))
            \<and> heap (snd (save h st i g opts picked saved written)) = heap st
            \<and> isDirty (snd (save h st i g opts picked saved written)) i = isDirty st i
            \<and> files (snd (save h st i g opts picked saved written)) = files st)"
  using assms
  by (auto simp: save_def Let_def setDirty_def updInput_def textFileService_write_def
        isDirty_def getResource_def)

theorem save_behaviour_witness:
  "fst (save exampleHost
         (snd (getOrMakeSearchEditorInput exampleHost (emptyWorld\<lparr>files := [exampleFile \<mapsto> ''old'']\<rparr>)
                 (WithUri exampleFile None) []))
         0 0 None None False True) = Inr (Some 0)
   \<and> textFileCalls (snd (save exampleHost
         (snd (getOrMakeSearchEditorInput exampleHost (emptyWorld\<lparr>files := [exampleFile \<mapsto> ''old'']\<rparr>)
                 (WithUri exampleFile None) []))
         0 0 None None False True)) = [ReadCall exampleFile, WriteCall exampleFile ''old'' None]"
proof -
  define st where "st = snd (getOrMakeSearchEditorInput exampleHost
        (emptyWorld\<lparr>files := [exampleFile \<mapsto> ''old'']\<rparr>) (WithUri exampleFile None) [])"
  have m: "model (heap st 0) = Inr (SearchEditorModel_fromRaw exampleHost ''old'')"
    by (simp add: st_def method_defs example_defs)
  have d: "\<not> isDisposed (SearchEditorModel_fromRaw exampleHost ''old'')"
    by (simp add: isDisposed_def SearchEditorModel_fromRaw_def)
  have u: "\<not> isUntitled st 0" "getResource st 0 = exampleFile"
    "textFileCalls st = [ReadCall exampleFile]"
    by (simp_all add: st_def method_defs example_defs)
  show ?thesis
    using save_behaviour [OF m d, of exampleHost 0 None None False True] u
    by (simp add: st_def [symmetric] contents_fromRaw)
qed

theorem save_write_rejected_counterexample:
  "model (heap (setDirty (snd (getOrMakeSearchEditorInput exampleHost
                   (emptyWorld\<lparr>files := [exampleFile \<mapsto> ''old'']\<rparr>) (WithUri exampleFile None) [])) 0 True) 0)
     = Inr (SearchEditorModel_fromRaw exampleHost ''old'')
   \<and> \<not> isDisposed (SearchEditorModel_fromRaw exampleHost ''old'')
   \<and> \<not> isUntitled (setDirty (snd (getOrMakeSearchEditorInput exampleHost
                   (emptyWorld\<lparr>files := [exampleFile \<mapsto> ''old'']\<rparr>) (WithUri exampleFile None) [])) 0 True) 0
   \<and> fst (save exampleHost
        (setDirty (snd (getOrMakeSearchEditorInput exampleHost
                   (emptyWorld\<lparr>files := [exampleFile \<mapsto> ''old'']\<rparr>) (WithUri exampleFile None) [])) 0 True)
        0 0 None None False False) = Inl (FileWriteError exampleFile)
   \<and> isDirty (snd (save exampleHost
        (setDirty (snd (getOrMakeSearchEditorInput exampleHost
                   (emptyWorld\<lparr>files := [exampleFile \<mapsto> ''old'']\<rparr>) (WithUri exampleFile None) [])) 0 True)
        0 0 None None False False)) 0"
  by (simp add: method_defs example_defs save_defs)

text \<open>
  C6, as the code has it. When the dialog gives no path, \<^verbatim>\<open>saveAs\<close> answers
  undefined (or rejects before the dialog is asked, which it does not when the model is
  there and its configuration has a query); the dirty flag, the calls and files of the
  text file service and the telemetry are as before; the input is as
  \<^verbatim>\<open>reloadModel\<close> leaves it, its query and highlights read again from the model.
  Telemetry and the call of the text file service happen only with a path.
\<close>

theorem saveAs_without_path:
  "(fst (saveAs h st i g opts None saved) = Inr None
      \<or> (\<exists>e. fst (saveAs h st i g opts None saved) = Inl e))
   \<and> (\<forall>m q. model (heap st i) = Inr m \<and> query (searchConfig m) = Some q \<longrightarrow>
         fst (saveAs h st i g opts None saved) = Inr None)
   \<and> isDirty (snd (saveAs h st i g opts None saved)) i = isDirty st i
   \<and> textFileCalls (snd (saveAs h st i g opts None saved)) = textFileCalls st
   \<and> files (snd (saveAs h st i g opts None saved)) = files st
   \<and> telemetry (snd (saveAs h st i g opts None saved)) = telemetry st
   \<and> heap (snd (saveAs h st i g opts None saved)) = heap (snd (reloadModel st i))
   \<and> (\<forall>picked. telemetry (snd (saveAs h st i g opts picked saved)) \<noteq> telemetry st
         \<or> textFileCalls (snd (saveAs h st i g opts picked saved)) \<noteq> textFileCalls st
         \<longrightarrow> picked \<noteq> None)"
  by (auto simp: saveAs_def suggestFileName_def reloadModel_def Let_def updInput_def isDirty_def
        textFileService_saveAs_def
      split: prod.splits sum.splits option.splits)

theorem saveAs_without_path_witness:
  "fst (saveAs exampleHost
         (snd (getOrMakeSearchEditorInput exampleHost emptyWorld (WithConfig exampleConfig) ''0.5''))
         0 0 None None False) = Inr None
   \<and> telemetry (snd (saveAs exampleHost
         (snd (getOrMakeSearchEditorInput exampleHost emptyWorld (WithConfig exampleConfig) ''0.5''))
         0 0 None None False)) = []"
proof -
  define st where "st = snd (getOrMakeSearchEditorInput exampleHost emptyWorld
                               (WithConfig exampleConfig) ''0.5'')"
  have m: "model (heap st 0) =
             Inr (SearchEditorModel_fromRaw exampleHost (serializeSearchConfiguration exampleHost exampleConfig))"
    "telemetry st = []"
    by (simp_all add: st_def method_defs example_defs)
  have q: "query (searchConfig (SearchEditorModel_fromRaw exampleHost
             (serializeSearchConfiguration exampleHost exampleConfig)))
           = Some (serializeSearchConfiguration exampleHost exampleConfig)"
    by (simp add: SearchEditorModel_fromRaw_def exampleHost_def)
  show ?thesis
    using saveAs_without_path [of exampleHost st 0 0 None False] m q
    by (simp add: st_def [symmetric])
qed

theorem saveAs_without_path_counterexample:
  "fst (saveAs exampleHost
         (setConfig
            (snd (getOrMakeSearchEditorInput exampleHost
                    (emptyWorld\<lparr>textModels := [exampleUntitled \<mapsto>
                        \<lparr>tm_value = ''results'', tm_decorations = [exampleDecoration]\<rparr>]\<rparr>)
                    (WithUri exampleUntitled (Some exampleConfig)) []))
            0 \<lparr>query = Some ''other'', otherFields = []\<rparr>)
         0 0 None None False) = Inr None
   \<and> getConfigSync
        (setConfig
            (snd (getOrMakeSearchEditorInput exampleHost
                    (emptyWorld\<lparr>textModels := [exampleUntitled \<mapsto>
                        \<lparr>tm_value = ''results'', tm_decorations = [exampleDecoration]\<rparr>]\<rparr>)
                    (WithUri exampleUntitled (Some exampleConfig)) []))
            0 \<lparr>query = Some ''other'', otherFields = []\<rparr>) 0
       = Some exampleConfig
   \<and> getConfigSync
        (snd (saveAs exampleHost
         (setConfig
            (snd (getOrMakeSearchEditorInput exampleHost
                    (emptyWorld\<lparr>textModels := [exampleUntitled \<mapsto>
                        \<lparr>tm_value = ''results'', tm_decorations = [exampleDecoration]\<rparr>]\<rparr>)
                    (WithUri exampleUntitled (Some exampleConfig)) []))
            0 \<lparr>query = Some ''other'', otherFields = []\<rparr>)
         0 0 None None False)) 0
       = Some \<lparr>query = Some ''other'', otherFields = []\<rparr>
   \<and> highlights
        (setConfig
            (snd (getOrMakeSearchEditorInput exampleHost
                    (emptyWorld\<lparr>textModels := [exampleUntitled \<mapsto>
                        \<lparr>tm_value = ''results'', tm_decorations = [exampleDecoration]\<rparr>]\<rparr>)
                    (WithUri exampleUntitled (Some exampleConfig)) []))
            0 \<lparr>query = Some ''other'', otherFields = []\<rparr>) 0
       = []
   \<and> highlights
        (snd (saveAs exampleHost
         (setConfig
            (snd (getOrMakeSearchEditorInput exampleHost
                    (emptyWorld\<lparr>textModels := [exampleUntitled \<mapsto>
                        \<lparr>tm_value = ''results'', tm_decorations = [exampleDecoration]\<rparr>]\<rparr>)
                    (WithUri exampleUntitled (Some exampleConfig)) []))
            0 \<lparr>query = Some ''other'', otherFields = []\<rparr>)
         0 0 None None False)) 0
       = [\<lparr>dec_id = None, dec_range = ''1:1-1:4'', dec_options = ''findMatch''\<rparr>]"
  by (simp add: method_defs example_defs save_defs)

end
